theory Spec2Isabelle
  imports Complex_Main "HOL-Library.Log_Nat" "HOL-Library.Sublist" "HOL-Library.Code_Target_Numeral"
begin

section \<open>JavaScript numbers\<close>

text \<open>
  A JavaScript number is NaN, one of the two infinities, or a finite value. A finite
  value is carried as the real number it denotes; the two zeros are identified (the
  sources never divide by a zero that could be negative, and \<open>===\<close> does not tell them
  apart). The operations below compute the exact result; IEEE-754 binary64 rounding is
  the separate function \<open>b64\<close>, which the program's operators \<open>fadd\<close>, \<open>fsub\<close>,
  \<open>fmul\<close>, \<open>fdiv\<close> apply to the exact result. The allocators take the rounding as their
  first argument, so that they can be read in exact arithmetic as well.
\<close>

datatype jsnum = NaN | PInf | NInf | Fin real

fun jneg :: "jsnum \<Rightarrow> jsnum" where
  "jneg NaN = NaN"
| "jneg PInf = NInf"
| "jneg NInf = PInf"
| "jneg (Fin a) = Fin (- a)"

fun jadd :: "jsnum \<Rightarrow> jsnum \<Rightarrow> jsnum" where
  "jadd (Fin a) (Fin b) = Fin (a + b)"
| "jadd (Fin a) PInf = PInf"
| "jadd (Fin a) NInf = NInf"
| "jadd PInf (Fin b) = PInf"
| "jadd PInf PInf = PInf"
| "jadd PInf NInf = NaN"
| "jadd NInf (Fin b) = NInf"
| "jadd NInf NInf = NInf"
| "jadd NInf PInf = NaN"
| "jadd NaN b = NaN"
| "jadd a NaN = NaN"

definition jsub :: "jsnum \<Rightarrow> jsnum \<Rightarrow> jsnum" where
  "jsub a b = jadd a (jneg b)"

fun jsign :: "jsnum \<Rightarrow> int" where
  "jsign NaN = 0"
| "jsign PInf = 1"
| "jsign NInf = - 1"
| "jsign (Fin a) = (if 0 < a then 1 else if a < 0 then - 1 else 0)"

definition jmul :: "jsnum \<Rightarrow> jsnum \<Rightarrow> jsnum" where
  "jmul a b =
     (case (a, b) of
        (Fin x, Fin y) \<Rightarrow> Fin (x * y)
      | (NaN, _) \<Rightarrow> NaN
      | (_, NaN) \<Rightarrow> NaN
      | _ \<Rightarrow> (let s = jsign a * jsign b
              in if s = 0 then NaN else if 0 < s then PInf else NInf))"

definition jdiv :: "jsnum \<Rightarrow> jsnum \<Rightarrow> jsnum" where
  "jdiv a b =
     (case (a, b) of
        (Fin x, Fin y) \<Rightarrow>
          (if y = 0 then (if x = 0 then NaN else if 0 < x then PInf else NInf)
           else Fin (x / y))
      | (NaN, _) \<Rightarrow> NaN
      | (_, NaN) \<Rightarrow> NaN
      | (Fin x, _) \<Rightarrow> Fin 0
      | (_, Fin y) \<Rightarrow> (if 0 < jsign a * (if y < 0 then - 1 else 1) then PInf else NInf)
      | _ \<Rightarrow> NaN)"

text \<open>\<open>a > b\<close>: false whenever an operand is NaN.\<close>

definition jgt :: "jsnum \<Rightarrow> jsnum \<Rightarrow> bool" where
  "jgt a b =
     (case (a, b) of
        (Fin x, Fin y) \<Rightarrow> y < x
      | (NaN, _) \<Rightarrow> False
      | (_, NaN) \<Rightarrow> False
      | (PInf, _) \<Rightarrow> b \<noteq> PInf
      | (_, NInf) \<Rightarrow> a \<noteq> NInf
      | _ \<Rightarrow> False)"

text \<open>\<open>a === b\<close> on numbers: NaN is not equal to itself.\<close>

definition jeq :: "jsnum \<Rightarrow> jsnum \<Rightarrow> bool" where
  "jeq a b = (a \<noteq> NaN \<and> a = b)"

text \<open>Truthiness of a number: \<open>0\<close> and NaN are falsy.\<close>

definition jtruthy :: "jsnum \<Rightarrow> bool" where
  "jtruthy a = (a \<noteq> NaN \<and> a \<noteq> Fin 0)"

text \<open>\<open>Math.round\<close>: the nearest integer, a tie going towards \<open>+\<infinity>\<close>.\<close>

fun jround :: "jsnum \<Rightarrow> jsnum" where
  "jround (Fin a) = Fin (of_int \<lfloor>a + 1 / 2\<rfloor>)"
| "jround a = a"

text \<open>\<open>xs.reduce((a, b) => a + b, 0)\<close>, with the rounding \<open>R\<close> of each addition.\<close>

definition jsum_in :: "(jsnum \<Rightarrow> jsnum) \<Rightarrow> jsnum list \<Rightarrow> jsnum" where
  "jsum_in R xs = foldl (\<lambda>a b. R (jadd a b)) (Fin 0) xs"

subsection \<open>Rounding to binary64\<close>

definition pow2 :: "int \<Rightarrow> real" where
  "pow2 e = (if 0 \<le> e then 2 ^ nat e else 1 / 2 ^ nat (- e))"

definition pow10 :: "int \<Rightarrow> real" where
  "pow10 e = (if 0 \<le> e then 10 ^ nat e else 1 / 10 ^ nat (- e))"

text \<open>The binary exponent of a positive real: \<open>pow2 (ilog2 x) \<le> x < pow2 (ilog2 x + 1)\<close>.\<close>

definition ilog2 :: "real \<Rightarrow> int" where
  "ilog2 x = (if 1 \<le> x then bitlen \<lfloor>x\<rfloor> - 1 else - bitlen (\<lceil>1 / x\<rceil> - 1))"

definition round_even :: "real \<Rightarrow> int" where
  "round_even q =
     (let m = \<lfloor>q\<rfloor>; r = q - of_int m
      in if r < 1 / 2 then m else if 1 / 2 < r then m + 1
         else if even m then m else m + 1)"

text \<open>
  Round to nearest, ties to even, with a 53-bit significand; below the normal range
  (exponent \<open>-1022\<close>) the spacing stays \<open>2\<^sup>-\<^sup>1\<^sup>0\<^sup>7\<^sup>4\<close>.
\<close>

definition rnd64 :: "real \<Rightarrow> real" where
  "rnd64 x =
     (if x = 0 then 0
      else let a = \<bar>x\<bar>; e = max (ilog2 a) (- 1022); s = pow2 (e - 52)
           in sgn x * of_int (round_even (a / s)) * s)"

text \<open>The binary64 value of an exact result; a rounded magnitude of \<open>2\<^sup>1\<^sup>0\<^sup>2\<^sup>4\<close> overflows.\<close>

fun b64 :: "jsnum \<Rightarrow> jsnum" where
  "b64 (Fin x) =
     (let y = rnd64 x
      in if y = 0 \<or> ilog2 \<bar>y\<bar> < 1024 then Fin y else if 0 < y then PInf else NInf)"
| "b64 a = a"

text \<open>Exact arithmetic: no rounding.\<close>

definition exact :: "jsnum \<Rightarrow> jsnum" where
  "exact a = a"

text \<open>The operators \<open>+\<close>, \<open>-\<close>, \<open>*\<close>, \<open>/\<close> of the program: the exact result, rounded.\<close>

definition fadd :: "jsnum \<Rightarrow> jsnum \<Rightarrow> jsnum" where
  "fadd a b = b64 (jadd a b)"

definition fsub :: "jsnum \<Rightarrow> jsnum \<Rightarrow> jsnum" where
  "fsub a b = b64 (jsub a b)"

definition fmul :: "jsnum \<Rightarrow> jsnum \<Rightarrow> jsnum" where
  "fmul a b = b64 (jmul a b)"

definition fdiv :: "jsnum \<Rightarrow> jsnum \<Rightarrow> jsnum" where
  "fdiv a b = b64 (jdiv a b)"

definition fsum :: "jsnum list \<Rightarrow> jsnum" where
  "fsum xs = jsum_in b64 xs"

text \<open>The percentage expression of the parsers and of the merge: \<open>whole > 0 ? (part / whole) * 100 : 0\<close>.\<close>

definition percentOf :: "jsnum \<Rightarrow> jsnum \<Rightarrow> jsnum" where
  "percentOf part whole = (if jgt whole (Fin 0) then fmul (fdiv part whole) (Fin 100) else Fin 0)"

section \<open>Allocators\<close>

subsection \<open>Production: calculateDailyPlans (services/data-parsers.ts, components/ProductionEntry.tsx)\<close>

text \<open>
  \<open>R\<close> is the rounding of each arithmetic result (\<open>b64\<close> for the program as it runs,
  \<open>exact\<close> for real arithmetic). The literal \<open>1.05\<close> is rounded as well. With no day
  at all, \<open>plans[plans.length - 1] += diff\<close> writes the property \<open>-1\<close> and the returned
  array stays empty.
\<close>

definition calculateDailyPlans_in :: "(jsnum \<Rightarrow> jsnum) \<Rightarrow> jsnum \<Rightarrow> nat \<Rightarrow> jsnum list" where
  "calculateDailyPlans_in R monthlyPlan daysInMonth =
     (let basePlan = R (jdiv monthlyPlan (Fin (real daysInMonth)));
          last7DaysPlan = R (jmul basePlan (R (Fin (105 / 100))));
          last7DaysTotal = R (jmul last7DaysPlan (Fin 7));
          remainingDays = R (jsub (Fin (real daysInMonth)) (Fin 7));
          remainingPlan = R (jsub monthlyPlan last7DaysTotal);
          earlyDayPlan = R (jdiv remainingPlan remainingDays);
          plans = map (\<lambda>i. if int daysInMonth - 7 < int i then last7DaysPlan else earlyDayPlan)
                    [1 ..< Suc daysInMonth];
          totalPlanned = jsum_in R plans;
          diff = R (jsub monthlyPlan totalPlanned)
      in if plans = [] then []
         else plans[length plans - 1 := R (jadd (plans ! (length plans - 1)) diff)])"

definition calculateDailyPlans :: "jsnum \<Rightarrow> nat \<Rightarrow> jsnum list" where
  "calculateDailyPlans = calculateDailyPlans_in b64"

subsection \<open>Calendar (the Date constructor)\<close>

definition isLeapYear :: "int \<Rightarrow> bool" where
  "isLeapYear y = ((y mod 4 = 0 \<and> y mod 100 \<noteq> 0) \<or> y mod 400 = 0)"

text \<open>Days of month \<open>m\<close> (0 to 11) of year \<open>y\<close>.\<close>

definition monthLength :: "int \<Rightarrow> nat \<Rightarrow> nat" where
  "monthLength y m =
     (if m = 1 then (if isLeapYear y then 29 else 28)
      else if m = 3 \<or> m = 5 \<or> m = 8 \<or> m = 10 then 30 else 31)"

text \<open>The Date constructor reads a year from 0 to 99 as 1900 plus that year.\<close>

definition fullYear :: "int \<Rightarrow> int" where
  "fullYear y = (if 0 \<le> y \<and> y \<le> 99 then 1900 + y else y)"

text \<open>\<open>new Date(year, month + 1, 0).getDate()\<close>; a month past 11 runs into later years.\<close>

definition daysInMonthOf :: "int \<Rightarrow> nat \<Rightarrow> nat" where
  "daysInMonthOf year month = monthLength (fullYear year + int (month div 12)) (month mod 12)"

text \<open>
  \<open>new Date(y, m, d).getMonth()\<close> for a day \<open>d \<ge> 1\<close> of a month \<open>m\<close> from 0 to 11: days
  past the end of the month roll into the next months.
\<close>

function rollMonth :: "int \<Rightarrow> nat \<Rightarrow> nat \<Rightarrow> nat" where
  "rollMonth y m d =
     (if monthLength y m < d
      then rollMonth (if m = 11 then y + 1 else y) (if m = 11 then 0 else Suc m) (d - monthLength y m)
      else m)"
  by pat_completeness auto
termination
  by (relation "measure (\<lambda>(y, m, d). d)") (auto simp: monthLength_def)

declare rollMonth.simps [simp del]

text \<open>
  \<open>isLastDay\<close> (components/Dashboard.tsx): the day after \<open>day\<close> falls in another month.
\<close>

definition isLastDay :: "int \<Rightarrow> nat \<Rightarrow> nat \<Rightarrow> bool" where
  "isLastDay year month day =
     (rollMonth (fullYear year + int (month div 12)) (month mod 12) (day + 1) \<noteq> month)"

subsection \<open>Sales: getDailyTarget (components/Dashboard.tsx)\<close>

definition getDailyTarget_in ::
  "(jsnum \<Rightarrow> jsnum) \<Rightarrow> int \<Rightarrow> nat \<Rightarrow> nat \<Rightarrow> jsnum \<Rightarrow> nat \<Rightarrow> jsnum" where
  "getDailyTarget_in R selectedYear selectedMonth workingDaysCount totalPlan day =
     (let isClosingDay = isLastDay selectedYear selectedMonth day;
          weightOfLastDay = Fin (35 / 10);
          totalWeights = R (jadd (R (jsub (Fin (real workingDaysCount)) (Fin 1))) weightOfLastDay)
      in if isClosingDay
         then jround (R (jmul (R (jdiv totalPlan totalWeights)) weightOfLastDay))
         else jround (R (jdiv totalPlan totalWeights)))"


definition getDailyTarget :: "int \<Rightarrow> nat \<Rightarrow> nat \<Rightarrow> jsnum \<Rightarrow> nat \<Rightarrow> jsnum" where
  "getDailyTarget = getDailyTarget_in b64"

section \<open>Strings\<close>

text \<open>\<open>xs.findIndex(p)\<close>: the first index whose element satisfies \<open>p\<close>; \<open>None\<close> for \<open>-1\<close>.\<close>

fun findIndex :: "('a \<Rightarrow> bool) \<Rightarrow> 'a list \<Rightarrow> nat option" where
  "findIndex p [] = None"
| "findIndex p (x # xs) = (if p x then Some 0 else map_option Suc (findIndex p xs))"

text \<open>
  A string is a list of characters. The functions below are the ECMAScript ones on
  ASCII text: letters outside \<open>A-Z\<close> and \<open>a-z\<close> have no other case, and white space is
  the ASCII white space (tab, line feed, vertical tab, form feed, carriage return,
  space).
\<close>

definition upperLetters :: string where
  "upperLetters = ''ABCDEFGHIJKLMNOPQRSTUVWXYZ''"

definition lowerLetters :: string where
  "lowerLetters = ''abcdefghijklmnopqrstuvwxyz''"

definition digitChars :: string where
  "digitChars = ''0123456789''"

definition lowerChar :: "char \<Rightarrow> char" where
  "lowerChar c = (case map_of (zip upperLetters lowerLetters) c of Some d \<Rightarrow> d | None \<Rightarrow> c)"

definition upperChar :: "char \<Rightarrow> char" where
  "upperChar c = (case map_of (zip lowerLetters upperLetters) c of Some d \<Rightarrow> d | None \<Rightarrow> c)"

definition toLowerCase :: "string \<Rightarrow> string" where
  "toLowerCase s = map lowerChar s"

definition toUpperCase :: "string \<Rightarrow> string" where
  "toUpperCase s = map upperChar s"

definition isDigit :: "char \<Rightarrow> bool" where
  "isDigit c = (c \<in> set digitChars)"

definition isLetter :: "char \<Rightarrow> bool" where
  "isLetter c = (c \<in> set upperLetters \<or> c \<in> set lowerLetters)"

definition isSpace :: "char \<Rightarrow> bool" where
  "isSpace c = (c \<in> set [CHR 0x09, CHR 0x0A, CHR 0x0B, CHR 0x0C, CHR 0x0D, CHR '' ''])"

text \<open>\<open>.\<close> of a regular expression matches any character but a line terminator.\<close>

definition isLineTerminator :: "char \<Rightarrow> bool" where
  "isLineTerminator c = (c = CHR 0x0A \<or> c = CHR 0x0D)"

definition trim :: "string \<Rightarrow> string" where
  "trim s = rev (dropWhile isSpace (rev (dropWhile isSpace s)))"

text \<open>\<open>s.includes(sub)\<close>\<close>

fun str_includes :: "string \<Rightarrow> string \<Rightarrow> bool" where
  "str_includes [] sub = (sub = [])"
| "str_includes (c # cs) sub = (prefix sub (c # cs) \<or> str_includes cs sub)"

definition startsWith :: "string \<Rightarrow> string \<Rightarrow> bool" where
  "startsWith s p = prefix p s"

definition endsWith :: "string \<Rightarrow> string \<Rightarrow> bool" where
  "endsWith s p = prefix (rev p) (rev s)"

text \<open>\<open>s.replace(/,/g, '')\<close> and \<open>s.replace(/[()]/g, '')\<close>\<close>

definition removeCommas :: "string \<Rightarrow> string" where
  "removeCommas s = filter (\<lambda>c. c \<noteq> CHR '','') s"

definition removeParens :: "string \<Rightarrow> string" where
  "removeParens s = filter (\<lambda>c. c \<noteq> CHR ''('' \<and> c \<noteq> CHR '')'') s"

text \<open>\<open>xs.join(sep)\<close> of strings.\<close>

fun joinWith :: "string \<Rightarrow> string list \<Rightarrow> string" where
  "joinWith sep [] = []"
| "joinWith sep [x] = x"
| "joinWith sep (x # y # ys) = x @ sep @ joinWith sep (y # ys)"

text \<open>The value of a decimal digit, and of a run of decimal digits.\<close>

definition digitValue :: "char \<Rightarrow> nat" where
  "digitValue c = (case findIndex (\<lambda>d. d = c) digitChars of Some n \<Rightarrow> n | None \<Rightarrow> 0)"

definition digitsValue :: "string \<Rightarrow> nat" where
  "digitsValue ds = foldl (\<lambda>n c. 10 * n + digitValue c) 0 ds"

text \<open>The decimal digits of a natural number, and the decimal text of an integer.\<close>

fun natDigits :: "nat \<Rightarrow> string" where
  "natDigits n =
     (if n < 10 then [digitChars ! n] else natDigits (n div 10) @ [digitChars ! (n mod 10)])"

declare natDigits.simps [simp del]

definition intToString :: "int \<Rightarrow> string" where
  "intToString i = (if i < 0 then CHR ''-'' # natDigits (nat (- i)) else natDigits (nat i))"

text \<open>\<open>s.padStart(2, '0')\<close>\<close>

definition padStart2 :: "string \<Rightarrow> string" where
  "padStart2 s = replicate (2 - length s) (CHR ''0'') @ s"

text \<open>The remainder operator \<open>%\<close> on integers: the sign of the dividend.\<close>

definition jsrem :: "int \<Rightarrow> int \<Rightarrow> int" where
  "jsrem a b = sgn a * (\<bar>a\<bar> mod \<bar>b\<bar>)"

subsection \<open>parseFloat\<close>

text \<open>
  \<open>parseFloat\<close> skips leading white space and reads the longest prefix that is a decimal
  literal: an optional sign, then \<open>Infinity\<close>, or digits with an optional fraction, or a
  fraction alone, then an optional exponent (kept only when it has a digit). With no such
  prefix the result is NaN. The value read is rounded to binary64.
\<close>

definition readExponent :: "string \<Rightarrow> int" where
  "readExponent r =
     (case r of
        [] \<Rightarrow> 0
      | c # r1 \<Rightarrow>
          if c = CHR ''e'' \<or> c = CHR ''E''
          then (case r1 of
                  [] \<Rightarrow> 0
                | s # r2 \<Rightarrow>
                    if s = CHR ''+'' then int (digitsValue (takeWhile isDigit r2))
                    else if s = CHR ''-'' then - int (digitsValue (takeWhile isDigit r2))
                    else int (digitsValue (takeWhile isDigit r1)))
          else 0)"

definition readUnsigned :: "string \<Rightarrow> jsnum" where
  "readUnsigned t =
     (if prefix ''Infinity'' t then PInf
      else let ip = takeWhile isDigit t;
               r1 = dropWhile isDigit t;
               fp = (case r1 of [] \<Rightarrow> [] | c # r \<Rightarrow> if c = CHR ''.'' then takeWhile isDigit r else []);
               r2 = (case r1 of [] \<Rightarrow> [] | c # r \<Rightarrow> if c = CHR ''.'' then dropWhile isDigit r else r1)
           in if ip = [] \<and> fp = [] then NaN
              else b64 (Fin (real (digitsValue (ip @ fp)) * pow10 (readExponent r2 - int (length fp)))))"

definition parseFloat :: "string \<Rightarrow> jsnum" where
  "parseFloat s =
     (let t = dropWhile isSpace s
      in case t of
           [] \<Rightarrow> NaN
         | c # r \<Rightarrow>
             if c = CHR ''-'' then jneg (readUnsigned r)
             else if c = CHR ''+'' then readUnsigned r
             else readUnsigned t)"

subsection \<open>Number to string\<close>

text \<open>
  \<open>Number::toString\<close>: the shortest decimal digits \<open>s\<close> (\<open>k\<close> of them) and exponent \<open>n\<close>
  with \<open>s * 10\<^sup>n\<^sup>-\<^sup>k\<close> rounding to the number, the nearest such when several have \<open>k\<close>
  digits; then positional notation for \<open>-6 < n \<le> 21\<close> and exponent notation otherwise.
\<close>

definition decimalExponent :: "real \<Rightarrow> int" where
  "decimalExponent x =
     (if 1 \<le> x then int (floorlog 10 (nat \<lfloor>x\<rfloor>))
      else 1 - int (floorlog 10 (nat (\<lceil>1 / x\<rceil> - 1))))"

text \<open>The candidates \<open>(s, n)\<close> with \<open>k\<close> digits for a positive binary64 value \<open>x\<close>.\<close>

definition digitCandidates :: "real \<Rightarrow> nat \<Rightarrow> (int \<times> int) list" where
  "digitCandidates x k =
     (let n0 = decimalExponent x;
          lo = \<lfloor>x / pow10 (n0 - int k)\<rfloor>
      in filter (\<lambda>(s, n). 10 ^ (k - 1) \<le> s \<and> s < 10 ^ k
                          \<and> b64 (Fin (real_of_int s * pow10 (n - int k))) = Fin x)
           [(lo, n0), (lo + 1, n0), (10 ^ (k - 1), n0 + 1)])"

definition closestCandidate :: "real \<Rightarrow> nat \<Rightarrow> (int \<times> int) list \<Rightarrow> int \<times> int" where
  "closestCandidate x k cs =
     foldl (\<lambda>(s, n) (s', n').
              let d = \<bar>real_of_int s * pow10 (n - int k) - x\<bar>;
                  d' = \<bar>real_of_int s' * pow10 (n' - int k) - x\<bar>
              in if d' < d \<or> (d' = d \<and> even s' \<and> odd s) then (s', n') else (s, n))
       (hd cs) (tl cs)"

definition shortestDigits :: "real \<Rightarrow> nat \<times> int \<times> int" where
  "shortestDigits x =
     (case filter (\<lambda>k. digitCandidates x k \<noteq> []) [1 ..< 18] of
        [] \<Rightarrow> (17, \<lfloor>x / pow10 (decimalExponent x - 17)\<rfloor>, decimalExponent x)
      | k # _ \<Rightarrow> (case closestCandidate x k (digitCandidates x k) of (s, n) \<Rightarrow> (k, s, n)))"

definition positiveToString :: "real \<Rightarrow> string" where
  "positiveToString x =
     (case shortestDigits x of
        (k, s, n) \<Rightarrow>
          let ds = natDigits (nat s)
          in if int k \<le> n \<and> n \<le> 21 then ds @ replicate (nat (n - int k)) (CHR ''0'')
             else if 0 < n \<and> n \<le> 21 then take (nat n) ds @ ''.'' @ drop (nat n) ds
             else if - 6 < n \<and> n \<le> 0 then ''0.'' @ replicate (nat (- n)) (CHR ''0'') @ ds
             else (if k = 1 then ds else take 1 ds @ ''.'' @ drop 1 ds)
                  @ ''e'' @ (if 0 \<le> n - 1 then ''+'' else ''-'') @ natDigits (nat \<bar>n - 1\<bar>))"

fun numberToString :: "jsnum \<Rightarrow> string" where
  "numberToString NaN = ''NaN''"
| "numberToString PInf = ''Infinity''"
| "numberToString NInf = ''-Infinity''"
| "numberToString (Fin x) =
     (if x = 0 then ''0''
      else if x < 0 then CHR ''-'' # positiveToString (- x)
      else positiveToString x)"

section \<open>Arrays, cells and grids\<close>

text \<open>\<open>xs[i]\<close> where \<open>i\<close> is the result of a findIndex, with a fallback index for \<open>-1\<close>.\<close>

definition orIndex :: "nat option \<Rightarrow> nat \<Rightarrow> nat" where
  "orIndex i d = (case i of Some k \<Rightarrow> k | None \<Rightarrow> d)"

text \<open>
  A cell of a sheet as \<open>sheet_to_json\<close> returns it: a string, a number or a boolean;
  \<open>CUndef\<close> is \<open>undefined\<close>, the value of an index past the end of a row.
\<close>

datatype cell = CUndef | CBool bool | CNum jsnum | CStr string

type_synonym grid = "cell list list"

definition cellAt :: "cell list \<Rightarrow> nat \<Rightarrow> cell" where
  "cellAt row i = (if i < length row then row ! i else CUndef)"

text \<open>\<open>String(c)\<close>\<close>

fun String_of :: "cell \<Rightarrow> string" where
  "String_of CUndef = ''undefined''"
| "String_of (CBool b) = (if b then ''true'' else ''false'')"
| "String_of (CNum n) = numberToString n"
| "String_of (CStr s) = s"

text \<open>Truthiness, and \<open>c || d\<close>.\<close>

fun truthy :: "cell \<Rightarrow> bool" where
  "truthy CUndef = False"
| "truthy (CBool b) = b"
| "truthy (CNum n) = jtruthy n"
| "truthy (CStr s) = (s \<noteq> [])"

definition orElse :: "cell \<Rightarrow> cell \<Rightarrow> cell" where
  "orElse c d = (if truthy c then c else d)"

text \<open>\<open>row.join('|')\<close>: an undefined element gives the empty string.\<close>

definition joinRow :: "cell list \<Rightarrow> string" where
  "joinRow row = joinWith ''|'' (map (\<lambda>c. case c of CUndef \<Rightarrow> [] | _ \<Rightarrow> String_of c) row)"

text \<open>Errors thrown: \<open>new Error(message)\<close>, or the TypeError of a property read on \<open>undefined\<close>.\<close>

datatype js_error = Error string | TypeError

subsection \<open>cleanValue (services/data-parsers.ts, components/FinanceEntry.tsx)\<close>

definition cleanValue :: "cell \<Rightarrow> jsnum" where
  "cleanValue val =
     (case val of
        CNum n \<Rightarrow> n
      | _ \<Rightarrow>
          if \<not> truthy val then Fin 0
          else let str = trim (removeCommas (String_of val))
               in if str = ''-'' \<or> str = [] then Fin 0
                  else if startsWith str ''('' \<and> endsWith str '')''
                  then fmul (Fin (- 1)) (parseFloat (removeParens str))
                  else (let v = parseFloat str in if jtruthy v then v else Fin 0))"

section \<open>The sales parser parseSalesExcel (services/data-parsers.ts)\<close>

text \<open>
  The fact record (\<open>DepartmentMismatch\<close> of types.ts, which is not among the sources), with
  the fields of the object literal that parseSalesExcel pushes.
\<close>

record DepartmentMismatch =
  department :: string
  team :: string
  metric :: string
  plan :: jsnum
  actual :: jsnum
  variance :: jsnum
  unit :: string
  status :: string
  reportDate :: string
  fy :: string

text \<open>
  Modelled from the spec: config.ts, which exports \<open>MONTH_NAMES\<close> and \<open>SALES_TEAMS\<close>, is not
  among the sources. The parsers take both tables as arguments (\<open>monthNames\<close>,
  \<open>salesTeams\<close>). The two constants below are the values used for concrete inputs: the
  month names are those of the report dates of the spec (\<open>November 01, 2025\<close>,
  \<open>MASTER_November_2025\<close>) and of the tables that the other components declare locally;
  the teams are the four upper-case names that the repository's notes list.
\<close>

definition MONTH_NAMES :: "string list" where
  "MONTH_NAMES = [''January'', ''February'', ''March'', ''April'', ''May'', ''June'', ''July'',
     ''August'', ''September'', ''October'', ''November'', ''December'']"

definition SALES_TEAMS :: "string list" where
  "SALES_TEAMS = [''ACHIEVERS'', ''PASSIONATE'', ''CONCORD'', ''DYNAMIC'']"

text \<open>\<open>MONTH_NAMES[selectedMonth]\<close> inside a template string.\<close>

definition monthName :: "string list \<Rightarrow> nat \<Rightarrow> string" where
  "monthName monthNames m = (if m < length monthNames then monthNames ! m else ''undefined'')"

text \<open>getFYLabel\<close>

definition pad :: "int \<Rightarrow> string" where
  "pad n = padStart2 (intToString n)"

definition getFYLabel :: "nat \<Rightarrow> int \<Rightarrow> string" where
  "getFYLabel month year =
     (if 6 \<le> month
      then ''FY '' @ pad (jsrem year 100) @ ''-'' @ pad (jsrem (year + 1) 100)
      else ''FY '' @ pad (jsrem (year - 1) 100) @ ''-'' @ pad (jsrem year 100))"

text \<open>The header row: the first row with a cell that is one of the trigger tokens.\<close>

definition isSalesHeaderCell :: "cell \<Rightarrow> bool" where
  "isSalesHeaderCell c =
     (let low = toLowerCase (String_of c)
      in low = ''teams'' \<or> low = ''brands'' \<or> low = ''all regions'' \<or> low = ''products''
         \<or> low = ''target units'')"

definition isSalesHeaderRow :: "cell list \<Rightarrow> bool" where
  "isSalesHeaderRow r = list_ex isSalesHeaderCell r"

text \<open>
  \<open>rows.find(...) || rows[0]\<close>, as the index of the row: the rows of a grid are distinct
  objects, so the test \<open>row === headerRow\<close> of the row loop is a test of the index.
\<close>

definition salesHeaderIndex :: "grid \<Rightarrow> nat" where
  "salesHeaderIndex rows = orIndex (findIndex isSalesHeaderRow rows) 0"

text \<open>
  \<open>/^(\d{1,2})[-./]([A-Za-z]{3})[-./](\d{2})$/\<close>: the three groups of a match.
\<close>

definition isDateSep :: "char \<Rightarrow> bool" where
  "isDateSep c = (c = CHR ''-'' \<or> c = CHR ''.'' \<or> c = CHR ''/'')"

definition matchDateHeader :: "string \<Rightarrow> (string \<times> string \<times> string) option" where
  "matchDateHeader s =
     (let d = (if 2 \<le> length s \<and> isDigit (s ! 0) \<and> isDigit (s ! 1) \<and> length s = 9 then 2 else 1);
          r = drop d s
      in if length s = d + 7 \<and> list_all isDigit (take d s)
            \<and> isDateSep (r ! 0) \<and> list_all isLetter (take 3 (drop 1 r))
            \<and> isDateSep (r ! 4) \<and> list_all isDigit (drop 5 r)
         then Some (take d s, take 3 (drop 1 r), drop 5 r)
         else None)"

text \<open>\<open>m.charAt(0).toUpperCase() + m.slice(1).toLowerCase()\<close>\<close>

definition capitalize :: "string \<Rightarrow> string" where
  "capitalize m = toUpperCase (take 1 m) @ toLowerCase (drop 1 m)"

text \<open>
  One step of \<open>headerRow.forEach((h, idx) => ...)\<close>: a header that matches the pattern
  and whose month, capitalized, stands at index \<open>selectedMonth\<close> of the month names maps
  its day to the column. The year of the header is not read.
\<close>

definition addDateColumn ::
  "string list \<Rightarrow> nat \<Rightarrow> (nat \<rightharpoonup> nat) \<Rightarrow> nat \<times> cell \<Rightarrow> (nat \<rightharpoonup> nat)" where
  "addDateColumn monthNames selectedMonth dateColumnMap ih =
     (case matchDateHeader (String_of (snd ih)) of
        None \<Rightarrow> dateColumnMap
      | Some (d, m, y) \<Rightarrow>
          if findIndex (\<lambda>n. n = capitalize m) monthNames = Some selectedMonth
          then dateColumnMap(digitsValue d \<mapsto> fst ih)
          else dateColumnMap)"

definition dateColumns :: "string list \<Rightarrow> nat \<Rightarrow> cell list \<Rightarrow> (nat \<rightharpoonup> nat)" where
  "dateColumns monthNames selectedMonth headerRow =
     foldl (addDateColumn monthNames selectedMonth) Map.empty
       (zip [0 ..< length headerRow] headerRow)"

text \<open>
  \<open>Object.keys(dateColumnMap).map(Number)\<close>: the keys are the days, of one or two digits,
  and an object lists integer keys in ascending order.
\<close>

definition mapKeys :: "(nat \<rightharpoonup> nat) \<Rightarrow> nat list" where
  "mapKeys m = filter (\<lambda>d. m d \<noteq> None) [0 ..< 100]"

text \<open>The two records that one row can contribute for one column.\<close>

definition salesFact ::
  "string \<Rightarrow> string \<Rightarrow> string \<Rightarrow> jsnum \<Rightarrow> bool \<Rightarrow> string \<Rightarrow> string \<Rightarrow> DepartmentMismatch" where
  "salesFact dept tm m val isMaster date fyLabel =
     \<lparr>department = dept, team = tm, metric = m,
      plan = (if isMaster then val else Fin 0),
      actual = (if isMaster then Fin 0 else val),
      variance = (if isMaster then jneg val else val),
      unit = ''Units'', status = ''on-track'', reportDate = date, fy = fyLabel\<rparr>"

text \<open>
  The body of \<open>rows.forEach(row => ...)\<close> for the rows from index \<open>i\<close> on, with the
  current team as the state that the loop carries.
\<close>

fun scanSalesRows ::
  "string list \<Rightarrow> nat \<Rightarrow> nat option \<Rightarrow> nat option \<Rightarrow> nat option \<Rightarrow> nat \<Rightarrow> bool \<Rightarrow> string \<Rightarrow> string
     \<Rightarrow> string \<Rightarrow> nat \<Rightarrow> grid \<Rightarrow> DepartmentMismatch list" where
  "scanSalesRows salesTeams headerIdx teamIdx regionIdx productIdx dataIdx isMaster date fyLabel
       currentTeam i [] = []"
| "scanSalesRows salesTeams headerIdx teamIdx regionIdx productIdx dataIdx isMaster date fyLabel
       currentTeam i (row # rest) =
     (if i = headerIdx
      then scanSalesRows salesTeams headerIdx teamIdx regionIdx productIdx dataIdx isMaster date
             fyLabel currentTeam (Suc i) rest
      else
        let teamFound = find (\<lambda>t. toUpperCase (String_of (cellAt row (orIndex teamIdx 0))) = t)
                          salesTeams;
            team' = (case teamFound of
                       Some t \<Rightarrow> if t \<noteq> [] then t else currentTeam
                     | None \<Rightarrow> currentTeam);
            m = trim (String_of (cellAt row (orIndex productIdx 0)));
            region = (case regionIdx of
                        Some r \<Rightarrow> trim (String_of (cellAt row r))
                      | None \<Rightarrow> team');
            val = cleanValue (cellAt row dataIdx);
            emitted =
              (if team' = [] then []
               else if m = [] \<or> str_includes (toLowerCase m) ''total''
                       \<or> str_includes (toLowerCase region) ''total'' then []
               else if \<not> jeq val (Fin 0) \<or> isMaster
               then salesFact ''Sales'' team' m val isMaster date fyLabel
                    # (if region \<noteq> [] \<and> region \<noteq> team'
                       then [salesFact ''Territory Sales'' region m val isMaster date fyLabel]
                       else [])
               else [])
        in emitted @ scanSalesRows salesTeams headerIdx teamIdx regionIdx productIdx dataIdx
                       isMaster date fyLabel team' (Suc i) rest)"

text \<open>The records of one entry of \<open>daysToProcess\<close>: nothing when the column is missing.\<close>

definition salesFactsOfDay ::
  "string list \<Rightarrow> string list \<Rightarrow> grid \<Rightarrow> nat \<Rightarrow> int \<Rightarrow> bool \<Rightarrow> nat \<Rightarrow> nat option
     \<Rightarrow> DepartmentMismatch list" where
  "salesFactsOfDay monthNames salesTeams rows selectedMonth selectedYear isMaster day dataIdx =
     (let headerRow = rows ! salesHeaderIndex rows;
          teamIdx = findIndex (\<lambda>c. toLowerCase (String_of c) = ''teams''
                                    \<or> toLowerCase (String_of c) = ''team'') headerRow;
          regionIdx = findIndex (\<lambda>c. toLowerCase (String_of c) = ''all regions'') headerRow;
          productIdx = findIndex (\<lambda>c. str_includes (toLowerCase (String_of c)) ''product'') headerRow;
          date = (if isMaster
                  then ''MASTER_'' @ monthName monthNames selectedMonth @ ''_''
                       @ intToString selectedYear
                  else monthName monthNames selectedMonth @ '' '' @ natDigits day @ '', ''
                       @ intToString selectedYear)
      in case dataIdx of
           None \<Rightarrow> []
         | Some idx \<Rightarrow>
             scanSalesRows salesTeams (salesHeaderIndex rows) teamIdx regionIdx productIdx idx
               isMaster date (getFYLabel selectedMonth selectedYear) [] 0 rows)"

text \<open>
  parseSalesExcel. With no row at all, \<open>rows[0]\<close> is undefined and the first
  \<open>headerRow.findIndex\<close> throws. The argument \<open>isTerritory\<close> is not read by the function.
\<close>

definition parseSalesExcel ::
  "string list \<Rightarrow> string list \<Rightarrow> grid \<Rightarrow> nat \<Rightarrow> int \<Rightarrow> bool \<Rightarrow> bool
     \<Rightarrow> js_error + DepartmentMismatch list" where
  "parseSalesExcel monthNames salesTeams rows selectedMonth selectedYear isMaster isTerritory =
     (if rows = [] then Inl TypeError
      else
        let headerRow = rows ! salesHeaderIndex rows;
            targetIdx = findIndex (\<lambda>c. toLowerCase (String_of c) = ''target units''
                                        \<or> toLowerCase (String_of c) = ''plan'') headerRow;
            dateColumnMap = (if isMaster then Map.empty
                             else dateColumns monthNames selectedMonth headerRow);
            daysToProcess = (if isMaster then [0] else mapKeys dateColumnMap)
        in Inr (concat (map (\<lambda>day.
                  salesFactsOfDay monthNames salesTeams rows selectedMonth selectedYear isMaster day
                    (if isMaster then targetIdx else dateColumnMap day))
                  daysToProcess)))"

section \<open>The header row of handleUpload (the sales upload of DataEntry)\<close>

text \<open>\<open>rowsToUse.find(r => r.some(...)) || rowsToUse[0]\<close>, as the index of the row.\<close>

definition isUploadHeaderCell :: "cell \<Rightarrow> bool" where
  "isUploadHeaderCell c =
     (let low = toLowerCase (String_of c)
      in low = ''teams'' \<or> low = ''team'' \<or> low = ''brands'' \<or> low = ''all regions''
         \<or> low = ''products'' \<or> low = ''product_name'' \<or> low = ''target units''
         \<or> low = ''row labels'')"

definition isUploadHeaderRow :: "cell list \<Rightarrow> bool" where
  "isUploadHeaderRow r = list_ex isUploadHeaderCell r"

definition uploadHeaderIndex :: "grid \<Rightarrow> nat" where
  "uploadHeaderIndex rows = orIndex (findIndex isUploadHeaderRow rows) 0"

section \<open>The production parser parseProductionExcel (services/data-parsers.ts)\<close>

text \<open>
  The report, its particulars and their daily entries, after the object literals of the
  function. \<open>dayNo\<close>, \<open>dayVariance\<close>, \<open>dayPercentage\<close> are the fields \<open>day\<close>, \<open>variance\<close>,
  \<open>percentage\<close> of a daily entry; \<open>particularName\<close> is the field \<open>name\<close> of a particular;
  \<open>prodMonth\<close>, \<open>prodMonthKey\<close>, \<open>prodTotalAchieved\<close>, \<open>prodReportDate\<close>, \<open>prodDaysInMonth\<close>
  are \<open>month\<close>, \<open>monthKey\<close>, \<open>totalAchieved\<close>, \<open>reportDate\<close>, \<open>daysInMonth\<close> of the report.
\<close>

record DailyEntry =
  dayNo :: nat
  planned :: jsnum
  achieved :: jsnum
  dayVariance :: jsnum
  dayPercentage :: jsnum

record Particular =
  particularName :: string
  monthlyPlan :: jsnum
  totalAchieved :: jsnum
  dailyData :: "DailyEntry list"
  mtdPlan :: jsnum
  mtdAchieved :: jsnum
  mtdPercentage :: jsnum
  remaining :: jsnum

record ProductionReport =
  prodMonth :: string
  prodMonthKey :: string
  particulars :: "Particular list"
  totalMonthlyPlan :: jsnum
  prodTotalAchieved :: jsnum
  totalRemaining :: jsnum
  overallPercentage :: jsnum
  prodReportDate :: string
  prodDaysInMonth :: nat

text \<open>\<open>/\d{1,2}\/\d{1,2}\/\d{4}/.test(s)\<close>: a match may start at any character.\<close>

definition afterDigits12 :: "string \<Rightarrow> string list" where
  "afterDigits12 s =
     (case s of
        [] \<Rightarrow> []
      | c # r \<Rightarrow>
          if isDigit c
          then r # (case r of [] \<Rightarrow> [] | c2 # r2 \<Rightarrow> if isDigit c2 then [r2] else [])
          else [])"

definition afterSlash :: "string list \<Rightarrow> string list" where
  "afterSlash rs =
     concat (map (\<lambda>r. case r of [] \<Rightarrow> [] | c # r' \<Rightarrow> if c = CHR ''/'' then [r'] else []) rs)"

definition slashDateAt :: "string \<Rightarrow> bool" where
  "slashDateAt s =
     list_ex (\<lambda>r. 4 \<le> length r \<and> list_all isDigit (take 4 r))
       (afterSlash (concat (map afterDigits12 (afterSlash (afterDigits12 s)))))"

fun hasSlashDate :: "string \<Rightarrow> bool" where
  "hasSlashDate [] = False"
| "hasSlashDate (c # cs) = (slashDateAt (c # cs) \<or> hasSlashDate cs)"

text \<open>The test of the header loop on a row, and of the search for the first daily column.\<close>

definition isProductionHeaderRow :: "cell list \<Rightarrow> bool" where
  "isProductionHeaderRow row =
     (let rowStr = toLowerCase (joinRow row)
      in (str_includes rowStr ''product'' \<or> str_includes rowStr ''plan'')
         \<and> (str_includes rowStr ''achiev'' \<or> hasSlashDate rowStr))"

definition isMonthlyPlanHeader :: "cell \<Rightarrow> bool" where
  "isMonthlyPlanHeader h =
     (let l = toLowerCase (String_of h)
      in str_includes l ''plan'' \<and> (str_includes l ''unit'' \<or> str_includes l ''no.''))"

definition isDailyHeader :: "cell \<Rightarrow> bool" where
  "isDailyHeader c =
     (let h = toLowerCase (String_of c) in str_includes h ''achiev'' \<or> hasSlashDate h)"

text \<open>
  The rows of the data loop that reach \<open>particulars.push\<close>: a name that is not empty, has
  no \<open>total\<close> in it and is not \<open>product category\<close>, and a monthly plan that is not
  \<open>=== 0\<close>.
\<close>

definition productionRowName :: "cell list \<Rightarrow> string" where
  "productionRowName row = trim (String_of (orElse (cellAt row 0) (CStr [])))"

definition productionRowKept :: "nat \<Rightarrow> cell list \<Rightarrow> bool" where
  "productionRowKept monthlyPlanCol row =
     (productionRowName row \<noteq> []
      \<and> \<not> str_includes (toLowerCase (productionRowName row)) ''total''
      \<and> toLowerCase (productionRowName row) \<noteq> ''product category''
      \<and> \<not> jeq (cleanValue (cellAt row monthlyPlanCol)) (Fin 0))"

text \<open>The particular pushed for a row that is kept.\<close>

definition particularOf :: "nat \<Rightarrow> nat \<Rightarrow> nat \<Rightarrow> cell list \<Rightarrow> Particular" where
  "particularOf monthlyPlanCol firstDailyCol days row =
     (let mPlan = cleanValue (cellAt row monthlyPlanCol);
          dailyAchieved = map (\<lambda>d. let col = firstDailyCol + (d - 1)
                                     in if col < length row then cleanValue (cellAt row col)
                                        else Fin 0) [1 ..< Suc days];
          tot = fsum dailyAchieved;
          dailyPlans = calculateDailyPlans mPlan days;
          lastDay = (case findIndex (\<lambda>v. jgt v (Fin 0)) (rev dailyAchieved) of
                       Some k \<Rightarrow> length dailyAchieved - k
                     | None \<Rightarrow> days);
          mPlanToDate = fsum (take lastDay dailyPlans);
          mAchievedToDate = fsum (take lastDay dailyAchieved)
      in \<lparr>particularName = productionRowName row, monthlyPlan = mPlan, totalAchieved = tot,
          dailyData = map (\<lambda>(idx, p).
                              \<lparr>dayNo = idx + 1, planned = p, achieved = dailyAchieved ! idx,
                               dayVariance = fsub (dailyAchieved ! idx) p,
                               dayPercentage = percentOf (dailyAchieved ! idx) p\<rparr>)
                        (zip [0 ..< length dailyPlans] dailyPlans),
          mtdPlan = mPlanToDate, mtdAchieved = mAchievedToDate,
          mtdPercentage = percentOf mAchievedToDate mPlanToDate,
          remaining = fsub mPlan tot\<rparr>)"

definition productionParticulars :: "nat \<Rightarrow> nat \<Rightarrow> nat \<Rightarrow> grid \<Rightarrow> Particular list" where
  "productionParticulars monthlyPlanCol firstDailyCol days dataRows =
     map (particularOf monthlyPlanCol firstDailyCol days)
       (filter (productionRowKept monthlyPlanCol) dataRows)"

text \<open>
  parseProductionExcel; \<open>now\<close> is the text of \<open>new Date().toISOString()\<close> at the time of the
  call.
\<close>

definition parseProductionExcel ::
  "string list \<Rightarrow> string \<Rightarrow> grid \<Rightarrow> nat \<Rightarrow> int \<Rightarrow> js_error + ProductionReport" where
  "parseProductionExcel monthNames now rows selectedMonth selectedYear =
     (case findIndex isProductionHeaderRow (take 10 rows) of
        None \<Rightarrow> Inl (Error ''Missing Production headers'')
      | Some headerRow \<Rightarrow>
          let headers = rows ! headerRow;
              monthlyPlanCol = orIndex (findIndex isMonthlyPlanHeader headers) 1;
              firstDailyCol =
                (case find (\<lambda>c. isDailyHeader (headers ! c))
                        [monthlyPlanCol + 1 ..< length headers] of
                   Some c \<Rightarrow> c
                 | None \<Rightarrow> monthlyPlanCol + 1);
              days = daysInMonthOf selectedYear selectedMonth;
              ps = productionParticulars monthlyPlanCol firstDailyCol days
                     (drop (Suc headerRow) rows)
          in Inr \<lparr>prodMonth = monthName monthNames selectedMonth @ '' '' @ intToString selectedYear,
                  prodMonthKey = intToString selectedYear @ ''-'' @ natDigits selectedMonth,
                  particulars = ps,
                  totalMonthlyPlan = fsum (map monthlyPlan ps),
                  prodTotalAchieved = fsum (map totalAchieved ps),
                  totalRemaining = fsum (map remaining ps),
                  overallPercentage = Fin 0,
                  prodReportDate = now,
                  prodDaysInMonth = days\<rparr>)"

text \<open>
  The sheet without the data rows whose monthly plan is \<open>=== 0\<close>: the rows up to the header
  as they are, of the rows below it those with another plan. A sheet with no header is
  left as it is.
\<close>

definition withoutZeroPlanRows :: "grid \<Rightarrow> grid" where
  "withoutZeroPlanRows rows =
     (case findIndex isProductionHeaderRow (take 10 rows) of
        None \<Rightarrow> rows
      | Some headerRow \<Rightarrow>
          take (Suc headerRow) rows
          @ filter (\<lambda>row. \<not> jeq (cleanValue
                                    (cellAt row (orIndex (findIndex isMonthlyPlanHeader
                                                            (rows ! headerRow)) 1)))
                              (Fin 0))
              (drop (Suc headerRow) rows))"

section \<open>Finance reports: the merge of handleFileUpload (components/FinanceEntry.tsx)\<close>

text \<open>
  The declarations of types.ts are not among the sources; the records follow the object
  literals of the code. A field name that several of the program's objects share carries
  a prefix here: \<open>wkProjected\<close>, \<open>wkActual\<close>, \<open>wkVariance\<close>, \<open>wkPercentage\<close> are the
  fields \<open>projected\<close>, \<open>actual\<close>, \<open>variance\<close>, \<open>percentage\<close> of a week; \<open>catName\<close>,
  \<open>catType\<close>, \<open>catPercentage\<close> are \<open>name\<close>, \<open>type\<close>, \<open>percentage\<close> of a category;
  \<open>obProjected\<close>, \<open>nbActual\<close>, \<open>ftActual\<close> and their likes are \<open>projected\<close>, \<open>actual\<close>,
  \<open>variance\<close>, \<open>percentage\<close> of the opening balance, of the closing balance and net
  position, and of the inflow and outflow totals; \<open>finMonth\<close>, \<open>finMonthKey\<close>,
  \<open>finReportDate\<close> are \<open>month\<close>, \<open>monthKey\<close>, \<open>reportDate\<close> of the report.
\<close>

record FinanceWeek =
  weekLabel :: string
  weekNumber :: nat
  wkProjected :: jsnum
  wkActual :: jsnum
  wkVariance :: jsnum
  wkPercentage :: jsnum

datatype flowType = inflowT | outflowT

record FinanceCategory =
  catName :: string
  catType :: flowType
  weeks :: "FinanceWeek list"
  totalProjected :: jsnum
  totalActual :: jsnum
  catPercentage :: jsnum
  remarks :: "string option"

record OpeningBalance =
  obProjected :: jsnum
  obActual :: jsnum

record NetBalance =
  nbProjected :: jsnum
  nbActual :: jsnum
  nbVariance :: jsnum

record FlowTotal =
  ftProjected :: jsnum
  ftActual :: jsnum
  ftPercentage :: jsnum

record FinanceMismatchReport =
  finMonth :: string
  finMonthKey :: string
  openingBalance :: OpeningBalance
  closingBalance :: NetBalance
  inflow :: FlowTotal
  outflow :: FlowTotal
  netPosition :: NetBalance
  inflowCategories :: "FinanceCategory list"
  outflowCategories :: "FinanceCategory list"
  finReportDate :: string

text \<open>One round of \<open>newCat.weeks.forEach\<close>: replace the week of the same label, or append.\<close>

definition mergeWeek :: "FinanceWeek list \<Rightarrow> FinanceWeek \<Rightarrow> FinanceWeek list" where
  "mergeWeek existingWeeks newWeek =
     (case findIndex (\<lambda>w. weekLabel w = weekLabel newWeek) existingWeeks of
        Some existWeekIdx \<Rightarrow> existingWeeks[existWeekIdx := newWeek]
      | None \<Rightarrow> existingWeeks @ [newWeek])"

text \<open>
  The branch \<open>if (existing)\<close> of \<open>mergeCats\<close>: merge the weeks, sort them by week number
  (Array.prototype.sort is stable, as \<open>sort_key\<close> is) and recompute the totals.
\<close>

definition mergeCategory :: "FinanceCategory \<Rightarrow> FinanceCategory \<Rightarrow> FinanceCategory" where
  "mergeCategory existing newCat =
     (let ws = sort_key weekNumber (foldl mergeWeek (weeks existing) (weeks newCat));
          tp = fsum (map wkProjected ws);
          ta = fsum (map wkActual ws)
      in existing\<lparr>weeks := ws, totalProjected := tp, totalActual := ta,
                   catPercentage := percentOf ta tp\<rparr>)"

definition mergeCat :: "FinanceCategory list \<Rightarrow> FinanceCategory \<Rightarrow> FinanceCategory list" where
  "mergeCat baseCats newCat =
     (case findIndex (\<lambda>c. catName c = catName newCat) baseCats of
        Some i \<Rightarrow> baseCats[i := mergeCategory (baseCats ! i) newCat]
      | None \<Rightarrow> baseCats @ [newCat])"

definition mergeCats :: "FinanceCategory list \<Rightarrow> FinanceCategory list \<Rightarrow> FinanceCategory list" where
  "mergeCats baseCats newCats = foldl mergeCat baseCats newCats"

text \<open>The body of the loop \<open>for (let i = 1; i < reportsToMerge.length; i++)\<close>.\<close>

definition mergeReport :: "FinanceMismatchReport \<Rightarrow> FinanceMismatchReport \<Rightarrow> FinanceMismatchReport" where
  "mergeReport masterReport report =
     masterReport
       \<lparr>openingBalance :=
          (if jeq (obProjected (openingBalance masterReport)) (Fin 0)
           then openingBalance report else openingBalance masterReport),
        inflowCategories := mergeCats (inflowCategories masterReport) (inflowCategories report),
        outflowCategories := mergeCats (outflowCategories masterReport) (outflowCategories report)\<rparr>"

text \<open>\<open>reCalcTotal\<close> and the totals written to the master report after the loop.\<close>

definition reCalcTotal :: "FinanceCategory list \<Rightarrow> jsnum \<times> jsnum" where
  "reCalcTotal cats = (fsum (map totalProjected cats), fsum (map totalActual cats))"

definition recalculate :: "FinanceMismatchReport \<Rightarrow> FinanceMismatchReport" where
  "recalculate masterReport =
     (let totalInflow = reCalcTotal (inflowCategories masterReport);
          totalOutflow = reCalcTotal (outflowCategories masterReport);
          op = openingBalance masterReport;
          netProj = fsub (fadd (obProjected op) (fst totalInflow)) (fst totalOutflow);
          netAct = fsub (fadd (obActual op) (snd totalInflow)) (snd totalOutflow)
      in masterReport
           \<lparr>inflow := \<lparr>ftProjected = fst totalInflow, ftActual = snd totalInflow,
                       ftPercentage = percentOf (snd totalInflow) (fst totalInflow)\<rparr>,
            outflow := \<lparr>ftProjected = fst totalOutflow, ftActual = snd totalOutflow,
                        ftPercentage = percentOf (snd totalOutflow) (fst totalOutflow)\<rparr>,
            closingBalance := \<lparr>nbProjected = netProj, nbActual = netAct,
                               nbVariance = fsub netAct netProj\<rparr>,
            netPosition :=
              \<lparr>nbProjected = fsub (fst totalInflow) (fst totalOutflow),
               nbActual = fsub (snd totalInflow) (snd totalOutflow),
               nbVariance = fsub (fsub (snd totalInflow) (snd totalOutflow))
                                 (fsub (fst totalInflow) (fst totalOutflow))\<rparr>\<rparr>)"

text \<open>
  The reports parsed from the files of one batch, merged: nothing when no file was
  parsed (\<open>reportsToMerge.length > 0\<close> fails), else the first report with every later
  one merged into it, and the totals recomputed.
\<close>

fun mergeReports :: "FinanceMismatchReport list \<Rightarrow> FinanceMismatchReport option" where
  "mergeReports [] = None"
| "mergeReports (first # rest) = Some (recalculate (foldl mergeReport first rest))"

text \<open>
  What parseSection of handleFileUpload gives every category: weeks in the order of their numbers,
  the totals the sums of the weeks, the percentage computed from the totals.
\<close>

definition parsedCategory :: "FinanceCategory \<Rightarrow> bool" where
  "parsedCategory c =
     (sorted (map weekNumber (weeks c))
      \<and> totalProjected c = fsum (map wkProjected (weeks c))
      \<and> totalActual c = fsum (map wkActual (weeks c))
      \<and> catPercentage c = percentOf (totalActual c) (totalProjected c))"

text \<open>
  The merge keys identify their objects: no two categories of the section share a name,
  and no two weeks of a category share a label.
\<close>

definition mergeKeysDistinct :: "FinanceCategory list \<Rightarrow> bool" where
  "mergeKeysDistinct cats =
     (distinct (map catName cats) \<and> list_all (\<lambda>c. distinct (map weekLabel (weeks c))) cats)"

section \<open>The finance parser parseFinanceExcel (services/data-parsers.ts)\<close>

text \<open>
  \<open>/\d+.*(?:TO|-).*\d+/i.test(s)\<close>: a digit, later \<open>to\<close> in any case or a hyphen, later a
  digit, with no line terminator between them.
\<close>

definition reTailDigit :: "string \<Rightarrow> bool" where
  "reTailDigit s = list_ex isDigit (takeWhile (\<lambda>c. \<not> isLineTerminator c) s)"

fun reSeparator :: "string \<Rightarrow> bool" where
  "reSeparator [] = False"
| "reSeparator (c # cs) =
     ((c = CHR ''-'' \<and> reTailDigit cs)
      \<or> (lowerChar c = CHR ''t''
          \<and> (case cs of [] \<Rightarrow> False | o' # r \<Rightarrow> lowerChar o' = CHR ''o'' \<and> reTailDigit r))
      \<or> (\<not> isLineTerminator c \<and> reSeparator cs))"

fun isDateRange :: "string \<Rightarrow> bool" where
  "isDateRange [] = False"
| "isDateRange (c # cs) = ((isDigit c \<and> reSeparator cs) \<or> isDateRange cs)"

text \<open>A week column: the label of its header and the indices of its two cells.\<close>

record WeekCol =
  wcLabel :: string
  wcNumber :: nat
  projectedIdx :: nat
  actualIdx :: nat

text \<open>The week of a category row, for one week column.\<close>

definition weekOfRow :: "(cell \<Rightarrow> cell) \<Rightarrow> cell list \<Rightarrow> WeekCol \<Rightarrow> FinanceWeek" where
  "weekOfRow pre row wc =
     (let proj = cleanValue (pre (cellAt row (projectedIdx wc)));
          act = cleanValue (pre (cellAt row (actualIdx wc)))
      in \<lparr>weekLabel = wcLabel wc, weekNumber = wcNumber wc, wkProjected = proj, wkActual = act,
          wkVariance = fsub act proj, wkPercentage = percentOf act proj\<rparr>)"

text \<open>\<open>row[particularsColIdx]\<close>, where the index may be the \<open>-1\<close> of a failed findIndex.\<close>

definition cellAtOpt :: "cell list \<Rightarrow> nat option \<Rightarrow> cell" where
  "cellAtOpt row i = (case i of Some k \<Rightarrow> cellAt row k | None \<Rightarrow> CUndef)"

definition financeRowName :: "nat option \<Rightarrow> cell list \<Rightarrow> string" where
  "financeRowName particularsColIdx row =
     trim (String_of (orElse (cellAtOpt row particularsColIdx) (CStr [])))"

definition isWeekHeader :: "string \<Rightarrow> bool" where
  "isWeekHeader h =
     (isDateRange h
      \<or> (str_includes (toLowerCase h) ''week'' \<and> \<not> str_includes (toLowerCase h) ''total''))"

definition financeWeekCols :: "string list \<Rightarrow> WeekCol list" where
  "financeWeekCols headers =
     map (\<lambda>(idx, c). \<lparr>wcLabel = headers ! c, wcNumber = idx + 1, projectedIdx = c,
                        actualIdx = c + 1\<rparr>)
       (zip [0 ..< length headers]
            (filter (\<lambda>c. isWeekHeader (headers ! c) \<and> c + 1 < length headers)
               [0 ..< length headers]))"

text \<open>\<open>parseSection(start, end, type)\<close> of parseFinanceExcel.\<close>

definition financeRowKept :: "nat option \<Rightarrow> cell list \<Rightarrow> bool" where
  "financeRowKept particularsColIdx row =
     (let n = financeRowName particularsColIdx row
      in n \<noteq> [] \<and> \<not> str_includes (toLowerCase n) ''total'' \<and> toLowerCase n \<noteq> ''inflow''
         \<and> toLowerCase n \<noteq> ''outflow'')"

definition financeCategoryOf ::
  "nat option \<Rightarrow> WeekCol list \<Rightarrow> flowType \<Rightarrow> cell list \<Rightarrow> FinanceCategory" where
  "financeCategoryOf particularsColIdx weekCols t row =
     (let ws = map (weekOfRow (\<lambda>c. c) row) weekCols
      in \<lparr>catName = financeRowName particularsColIdx row, catType = t, weeks = ws,
          totalProjected = fsum (map wkProjected ws), totalActual = fsum (map wkActual ws),
          catPercentage = Fin 0, remarks = None\<rparr>)"

definition parseSection ::
  "grid \<Rightarrow> nat option \<Rightarrow> WeekCol list \<Rightarrow> nat \<Rightarrow> nat \<Rightarrow> flowType \<Rightarrow> FinanceCategory list" where
  "parseSection rows particularsColIdx weekCols start end' t =
     map (financeCategoryOf particularsColIdx weekCols t)
       (filter (financeRowKept particularsColIdx) (drop start (take end' rows)))"

definition isParticularsRow :: "cell list \<Rightarrow> bool" where
  "isParticularsRow row = str_includes (toLowerCase (joinRow row)) ''particulars''"

definition sectionStart :: "grid \<Rightarrow> nat option \<Rightarrow> string \<Rightarrow> nat option" where
  "sectionStart rows particularsColIdx label =
     findIndex (\<lambda>r. trim (toLowerCase (String_of (cellAtOpt r particularsColIdx))) = label) rows"

text \<open>parseFinanceExcel; \<open>now\<close> is the text of \<open>new Date().toISOString()\<close>.\<close>

definition parseFinanceExcel ::
  "string list \<Rightarrow> string \<Rightarrow> grid \<Rightarrow> nat \<Rightarrow> int \<Rightarrow> js_error + FinanceMismatchReport" where
  "parseFinanceExcel monthNames now rows selectedMonth selectedYear =
     (case findIndex isParticularsRow (take 50 rows) of
        None \<Rightarrow> Inl (Error ''Missing Finance headers'')
      | Some headerRowIdx \<Rightarrow>
          let particularsColIdx =
                findIndex (\<lambda>c. trim (toLowerCase (String_of c)) = ''particulars'')
                  (rows ! headerRowIdx);
              headers = map (\<lambda>h. trim (String_of h)) (rows ! headerRowIdx);
              weekCols = financeWeekCols headers;
              outflowStart = sectionStart rows particularsColIdx ''outflow'';
              inflowStart = orIndex (sectionStart rows particularsColIdx ''inflow'')
                              (headerRowIdx + 1);
              inflowCats = parseSection rows particularsColIdx weekCols inflowStart
                             (orIndex outflowStart (length rows)) inflowT;
              outflowCats = (case outflowStart of
                               Some s \<Rightarrow> parseSection rows particularsColIdx weekCols s
                                           (length rows) outflowT
                             | None \<Rightarrow> [])
          in Inr \<lparr>finMonth = monthName monthNames selectedMonth @ '' '' @ intToString selectedYear,
                  finMonthKey = intToString selectedYear @ ''-'' @ natDigits selectedMonth,
                  openingBalance = \<lparr>obProjected = Fin 0, obActual = Fin 0\<rparr>,
                  closingBalance = \<lparr>nbProjected = Fin 0, nbActual = Fin 0, nbVariance = Fin 0\<rparr>,
                  inflow = \<lparr>ftProjected = Fin 0, ftActual = Fin 0, ftPercentage = Fin 0\<rparr>,
                  outflow = \<lparr>ftProjected = Fin 0, ftActual = Fin 0, ftPercentage = Fin 0\<rparr>,
                  netPosition = \<lparr>nbProjected = Fin 0, nbActual = Fin 0, nbVariance = Fin 0\<rparr>,
                  inflowCategories = inflowCats, outflowCategories = outflowCats,
                  finReportDate = now\<rparr>)"

section \<open>Example inputs\<close>

text \<open>A finance report as the upload pushes it to \<open>reportsToMerge\<close>, with the given categories.\<close>

definition reportOf :: "FinanceCategory list \<Rightarrow> FinanceCategory list \<Rightarrow> FinanceMismatchReport" where
  "reportOf ins outs =
     \<lparr>finMonth = ''November 2025'', finMonthKey = ''2025-10'',
      openingBalance = \<lparr>obProjected = Fin 0, obActual = Fin 0\<rparr>,
      closingBalance = \<lparr>nbProjected = Fin 0, nbActual = Fin 0, nbVariance = Fin 0\<rparr>,
      inflow = \<lparr>ftProjected = Fin 0, ftActual = Fin 0, ftPercentage = Fin 0\<rparr>,
      outflow = \<lparr>ftProjected = Fin 0, ftActual = Fin 0, ftPercentage = Fin 0\<rparr>,
      netPosition = \<lparr>nbProjected = Fin 0, nbActual = Fin 0, nbVariance = Fin 0\<rparr>,
      inflowCategories = ins, outflowCategories = outs, finReportDate = ''''\<rparr>"

text \<open>A category of one week, projected and received in full.\<close>

definition oneWeekCategory :: "string \<Rightarrow> flowType \<Rightarrow> real \<Rightarrow> FinanceCategory" where
  "oneWeekCategory n t amount =
     \<lparr>catName = n, catType = t,
      weeks = [\<lparr>weekLabel = ''Week 1'', weekNumber = 1, wkProjected = Fin amount,
                wkActual = Fin amount, wkVariance = Fin 0, wkPercentage = Fin 100\<rparr>],
      totalProjected = Fin amount, totalActual = Fin amount, catPercentage = Fin 100,
      remarks = Some ''''\<rparr>"

text \<open>Two rows of the inflow section that carry the same name.\<close>

definition twoRentRows :: FinanceMismatchReport where
  "twoRentRows = reportOf [oneWeekCategory ''Rent'' inflowT 10, oneWeekCategory ''Rent'' inflowT 20] []"

text \<open>Three categories of distinct names.\<close>

definition distinctRows :: FinanceMismatchReport where
  "distinctRows =
     reportOf [oneWeekCategory ''Sales'' inflowT 10, oneWeekCategory ''Loans'' inflowT 20]
              [oneWeekCategory ''Rent'' outflowT 5]"

text \<open>The daily sheet of the spec's scenario: one date column of November 2025.\<close>

definition dailyNovemberGrid :: grid where
  "dailyNovemberGrid =
     [[CStr ''Teams'', CStr ''Products'', CStr ''01-Nov-25''],
      [CStr ''ACHIEVERS'', CStr ''ProductX'', CStr ''150'']]"

text \<open>The record that the spec's scenario expects from it.\<close>

definition expectedNovemberFact :: DepartmentMismatch where
  "expectedNovemberFact =
     \<lparr>department = ''Sales'', team = ''Achievers'', metric = ''ProductX'', plan = Fin 0,
      actual = Fin 150, variance = Fin 150, unit = ''Units'', status = ''on-track'',
      reportDate = ''November 01, 2025'', fy = ''FY 25-26''\<rparr>"

text \<open>A daily sheet for another month than the one asked for (December, not November).\<close>

definition dailyDecemberGrid :: grid where
  "dailyDecemberGrid =
     [[CStr ''Teams'', CStr ''Products'', CStr ''01-Dec-25''],
      [CStr ''ACHIEVERS'', CStr ''ProductX'', CStr ''150'']]"

text \<open>The master sheet of the spec's scenario, and the record it gives.\<close>

definition masterGrid :: grid where
  "masterGrid =
     [[CStr ''Teams'', CStr ''Products'', CStr ''Target Units''],
      [CStr ''ACHIEVERS'', CStr ''ProductX'', CStr ''4646'']]"

definition masterFact :: DepartmentMismatch where
  "masterFact =
     \<lparr>department = ''Sales'', team = ''ACHIEVERS'', metric = ''ProductX'', plan = Fin 4646,
      actual = Fin 0, variance = Fin (- 4646), unit = ''Units'', status = ''on-track'',
      reportDate = ''MASTER_November_2025'', fy = ''FY 25-26''\<rparr>"

text \<open>
  A daily sheet of May 2025 whose first row names its columns with none of the header
  tokens, and the record parseSalesExcel makes of it.
\<close>

definition headerlessGrid :: grid where
  "headerlessGrid =
     [[CStr ''Sales Force'', CStr ''Item'', CStr ''01-May-25''],
      [CStr ''PASSIONATE'', CStr ''Tablet X'', CStr ''7'']]"

definition headerlessFact :: DepartmentMismatch where
  "headerlessFact =
     \<lparr>department = ''Sales'', team = ''PASSIONATE'', metric = ''PASSIONATE'', plan = Fin 0,
      actual = Fin 7, variance = Fin 7, unit = ''Units'', status = ''on-track'',
      reportDate = ''May 1, 2025'', fy = ''FY 24-25''\<rparr>"

text \<open>
  A production sheet: a header, a product with a plan, a product with the plan 0, a
  product whose plan is no number, and the line of totals.
\<close>

definition productionGrid :: grid where
  "productionGrid =
     [[CStr ''Product Category'', CStr ''Plan No. of Units'', CStr ''Achievement''],
      [CStr ''Tablets'', CNum (Fin 3000), CNum (Fin 100), CStr ''50''],
      [CStr ''Syrup'', CNum (Fin 0), CNum (Fin 5)],
      [CStr ''Capsules'', CStr ''abc'', CNum (Fin 5)],
      [CStr ''Total'', CNum (Fin 3000), CNum (Fin 110)]]"

section \<open>Properties\<close>

subsection \<open>Evaluating binary64 rounding\<close>

lemma bitlen_pos: "0 < x \<Longrightarrow> bitlen x = bitlen (x div 2) + 1"
  by (subst compute_bitlen) simp

lemma bitlen_nonpos: "x \<le> 0 \<Longrightarrow> bitlen x = 0"
  by (subst compute_bitlen) simp

lemmas b64_eval = rnd64_def ilog2_def pow2_def round_even_def Let_def bitlen_pos bitlen_nonpos
  jsub_def jmul_def jdiv_def

lemma round_even_of_int: "round_even (of_int j) = j"
  by (simp add: round_even_def)

text \<open>An integer below \<open>2\<^sup>5\<^sup>3\<close> in magnitude is a binary64 value: rounding leaves it alone.\<close>

lemma rnd64_of_int_pos:
  assumes "0 < k" "k < 2 ^ 53"
  shows "rnd64 (of_int k) = of_int k" and "ilog2 (of_int k) < 1024"
proof -
  define e where "e = bitlen k - 1"
  have "1 \<le> bitlen k" using assms(1) by (simp add: bitlen_ge_iff_power)
  then have e0: "0 \<le> e" by (simp add: e_def)
  have "bitlen k \<le> 53" using assms(2) by (simp add: bitlen_le_iff_power)
  then have e52: "e \<le> 52" by (simp add: e_def)
  have il: "ilog2 (of_int k) = e" using assms(1) by (simp add: ilog2_def e_def)
  then show "ilog2 (of_int k) < 1024" using e52 by simp
  define n where "n = nat (52 - e)"
  have s: "pow2 (e - 52) = 1 / 2 ^ n"
    using e52 by (cases "e = 52") (simp_all add: pow2_def n_def)
  have q: "real_of_int k / (1 / 2 ^ n) = of_int (k * 2 ^ n)" by simp
  have "rnd64 (of_int k)
      = sgn (real_of_int k) * of_int (round_even (real_of_int k / (1 / 2 ^ n))) * (1 / 2 ^ n)"
    using assms(1) e0 by (simp add: rnd64_def il s Let_def)
  also have "\<dots> = of_int k" using assms(1) by (simp only: q round_even_of_int) simp
  finally show "rnd64 (of_int k) = of_int k" .
qed

lemma rnd64_neg: "rnd64 (- x) = - rnd64 x"
  by (simp add: rnd64_def Let_def sgn_minus)

lemma b64_of_int:
  assumes "\<bar>k\<bar> < 2 ^ 53"
  shows "b64 (Fin (of_int k)) = Fin (of_int k)"
proof (cases "k = 0")
  case True
  then show ?thesis by (simp add: rnd64_def)
next
  case False
  show ?thesis
  proof (cases "0 < k")
    case True
    with assms have "k < 2 ^ 53" by simp
    from rnd64_of_int_pos[OF True this] True show ?thesis by (simp add: Let_def)
  next
    case neg: False
    with False assms have k: "0 < - k" "- k < 2 ^ 53" by simp_all
    from rnd64_of_int_pos[OF k] have "rnd64 (of_int k) = of_int k" "ilog2 (of_int (- k)) < 1024"
      using rnd64_neg[of "of_int k"] by simp_all
    moreover have "\<bar>real_of_int k\<bar> = of_int (- k)" using neg by simp
    ultimately show ?thesis by (simp add: Let_def)
  qed
qed

lemma b64_numeral [simp]:
  "numeral w < (2 :: int) ^ 53 \<Longrightarrow> b64 (Fin (numeral w)) = Fin (numeral w)"
  using b64_of_int[of "numeral w"] by simp

lemma b64_zero [simp]: "b64 (Fin 0) = Fin 0"
  using b64_of_int[of 0] by simp

lemma b64_one [simp]: "b64 (Fin 1) = Fin 1"
  using b64_of_int[of 1] by simp

lemma b64_neg_numeral [simp]:
  "numeral w < (2 :: int) ^ 53 \<Longrightarrow> b64 (Fin (- numeral w)) = Fin (- numeral w)"
  using b64_of_int[of "- numeral w"] by simp

declare b64.simps(1) [simp del]

lemmas fops = fsum_def jsum_in_def fadd_def fsub_def fmul_def fdiv_def percentOf_def jgt_def
  jeq_def

subsection \<open>Exact arithmetic\<close>

lemma jsum_in_exact_Fin_aux:
  "foldl (\<lambda>a b. exact (jadd a b)) (Fin s) (map Fin xs) = Fin (s + sum_list xs)"
  by (induction xs arbitrary: s) (simp_all add: exact_def add.assoc)

lemma jsum_in_exact_Fin: "jsum_in exact (map Fin xs) = Fin (sum_list xs)"
  by (simp add: jsum_in_def jsum_in_exact_Fin_aux)

lemma jdiv_Fin: "y \<noteq> 0 \<Longrightarrow> jdiv (Fin x) (Fin y) = Fin (x / y)"
  by (simp add: jdiv_def)

lemma jmul_Fin: "jmul (Fin x) (Fin y) = Fin (x * y)"
  by (simp add: jmul_def)

lemma round_half_up_close: "\<bar>of_int \<lfloor>x + 1 / 2\<rfloor> - x\<bar> \<le> (1 / 2 :: real)"
  by linarith

subsection \<open>calculateDailyPlans at monthlyPlan 1.7 and 30 days, step by step\<close>

text \<open>
  Every binary64 operation the allocator performs for a monthly plan of \<open>1.7\<close> and a
  month of 30 days, in the order of the source: the operands are the values computed
  by the steps before.
\<close>

lemma cdp_plan:
  "b64 (Fin (17 / 10)) = Fin (7656119366529843 / 4503599627370496)"
  by (simp add: b64.simps b64_eval)

lemma cdp_base:
  "b64 (jdiv (Fin (7656119366529843 / 4503599627370496)) (Fin 30)) = Fin (8166527324298499 / 144115188075855872)"
  by (simp add: b64.simps b64_eval)

lemma cdp_literal:
  "b64 (Fin (105 / 100)) = Fin (4728779608739021 / 4503599627370496)"
  by (simp add: b64.simps b64_eval)

lemma cdp_last7:
  "b64 (jmul (Fin (8166527324298499 / 144115188075855872)) (Fin (4728779608739021 / 4503599627370496))) = Fin (535928355657089 / 9007199254740992)"
  by (simp add: b64.simps b64_eval)

lemma cdp_last7_total:
  "b64 (jmul (Fin (535928355657089 / 9007199254740992)) (Fin 7)) = Fin (3751498489599623 / 9007199254740992)"
  by (simp add: b64.simps b64_eval)

lemma cdp_remaining_days:
  "b64 (jsub (Fin 30) (Fin 7)) = Fin 23"
  by (simp add: b64.simps b64_eval)

lemma cdp_remaining_plan:
  "b64 (jsub (Fin (7656119366529843 / 4503599627370496)) (Fin (3751498489599623 / 9007199254740992))) = Fin (361273132608127 / 281474976710656)"
  by (simp add: b64.simps b64_eval)

lemma cdp_early:
  "b64 (jdiv (Fin (361273132608127 / 281474976710656)) (Fin 23)) = Fin (8042254082407001 / 144115188075855872)"
  by (simp add: b64.simps b64_eval)

lemma cdp_sum1:
  "b64 (jadd (Fin 0) (Fin (8042254082407001 / 144115188075855872))) = Fin (8042254082407001 / 144115188075855872)"
  by (simp add: b64.simps b64_eval)

lemma cdp_sum2:
  "b64 (jadd (Fin (8042254082407001 / 144115188075855872)) (Fin (8042254082407001 / 144115188075855872))) = Fin (8042254082407001 / 72057594037927936)"
  by (simp add: b64.simps b64_eval)

lemma cdp_sum3:
  "b64 (jadd (Fin (8042254082407001 / 72057594037927936)) (Fin (8042254082407001 / 144115188075855872))) = Fin (6031690561805251 / 36028797018963968)"
  by (simp add: b64.simps b64_eval)

lemma cdp_sum4:
  "b64 (jadd (Fin (6031690561805251 / 36028797018963968)) (Fin (8042254082407001 / 144115188075855872))) = Fin (8042254082407001 / 36028797018963968)"
  by (simp add: b64.simps b64_eval)

lemma cdp_sum5:
  "b64 (jadd (Fin (8042254082407001 / 36028797018963968)) (Fin (8042254082407001 / 144115188075855872))) = Fin (628301100188047 / 2251799813685248)"
  by (simp add: b64.simps b64_eval)

lemma cdp_sum6:
  "b64 (jadd (Fin (628301100188047 / 2251799813685248)) (Fin (8042254082407001 / 144115188075855872))) = Fin (6031690561805251 / 18014398509481984)"
  by (simp add: b64.simps b64_eval)

lemma cdp_sum7:
  "b64 (jadd (Fin (6031690561805251 / 18014398509481984)) (Fin (8042254082407001 / 144115188075855872))) = Fin (3518486161053063 / 9007199254740992)"
  by (simp add: b64.simps b64_eval)

lemma cdp_sum8:
  "b64 (jadd (Fin (3518486161053063 / 9007199254740992)) (Fin (8042254082407001 / 144115188075855872))) = Fin (8042254082407001 / 18014398509481984)"
  by (simp add: b64.simps b64_eval)

lemma cdp_sum9:
  "b64 (jadd (Fin (8042254082407001 / 18014398509481984)) (Fin (8042254082407001 / 144115188075855872))) = Fin (2261883960676969 / 4503599627370496)"
  by (simp add: b64.simps b64_eval)

lemma cdp_sum10:
  "b64 (jadd (Fin (2261883960676969 / 4503599627370496)) (Fin (8042254082407001 / 144115188075855872))) = Fin (628301100188047 / 1125899906842624)"
  by (simp add: b64.simps b64_eval)

lemma cdp_sum11:
  "b64 (jadd (Fin (628301100188047 / 1125899906842624)) (Fin (8042254082407001 / 144115188075855872))) = Fin (2764524840827407 / 4503599627370496)"
  by (simp add: b64.simps b64_eval)

lemma cdp_sum12:
  "b64 (jadd (Fin (2764524840827407 / 4503599627370496)) (Fin (8042254082407001 / 144115188075855872))) = Fin (1507922640451313 / 2251799813685248)"
  by (simp add: b64.simps b64_eval)

lemma cdp_sum13:
  "b64 (jadd (Fin (1507922640451313 / 2251799813685248)) (Fin (8042254082407001 / 144115188075855872))) = Fin (3267165720977845 / 4503599627370496)"
  by (simp add: b64.simps b64_eval)

lemma cdp_sum14:
  "b64 (jadd (Fin (3267165720977845 / 4503599627370496)) (Fin (8042254082407001 / 144115188075855872))) = Fin (439810770131633 / 562949953421312)"
  by (simp add: b64.simps b64_eval)

lemma cdp_sum15:
  "b64 (jadd (Fin (439810770131633 / 562949953421312)) (Fin (8042254082407001 / 144115188075855872))) = Fin (3769806601128283 / 4503599627370496)"
  by (simp add: b64.simps b64_eval)

lemma cdp_sum16:
  "b64 (jadd (Fin (3769806601128283 / 4503599627370496)) (Fin (8042254082407001 / 144115188075855872))) = Fin (2010563520601751 / 2251799813685248)"
  by (simp add: b64.simps b64_eval)

lemma cdp_sum17:
  "b64 (jadd (Fin (2010563520601751 / 2251799813685248)) (Fin (8042254082407001 / 144115188075855872))) = Fin (4272447481278721 / 4503599627370496)"
  by (simp add: b64.simps b64_eval)

lemma cdp_sum18:
  "b64 (jadd (Fin (4272447481278721 / 4503599627370496)) (Fin (8042254082407001 / 144115188075855872))) = Fin (1130941980338485 / 1125899906842624)"
  by (simp add: b64.simps b64_eval)

lemma cdp_sum19:
  "b64 (jadd (Fin (1130941980338485 / 1125899906842624)) (Fin (8042254082407001 / 144115188075855872))) = Fin (4775088361429159 / 4503599627370496)"
  by (simp add: b64.simps b64_eval)

lemma cdp_sum20:
  "b64 (jadd (Fin (4775088361429159 / 4503599627370496)) (Fin (8042254082407001 / 144115188075855872))) = Fin (2513204400752189 / 2251799813685248)"
  by (simp add: b64.simps b64_eval)

lemma cdp_sum21:
  "b64 (jadd (Fin (2513204400752189 / 2251799813685248)) (Fin (8042254082407001 / 144115188075855872))) = Fin (5277729241579597 / 4503599627370496)"
  by (simp add: b64.simps b64_eval)

lemma cdp_sum22:
  "b64 (jadd (Fin (5277729241579597 / 4503599627370496)) (Fin (8042254082407001 / 144115188075855872))) = Fin (172782802551713 / 140737488355328)"
  by (simp add: b64.simps b64_eval)

lemma cdp_sum23:
  "b64 (jadd (Fin (172782802551713 / 140737488355328)) (Fin (8042254082407001 / 144115188075855872))) = Fin (5780370121730035 / 4503599627370496)"
  by (simp add: b64.simps b64_eval)

lemma cdp_sum24:
  "b64 (jadd (Fin (5780370121730035 / 4503599627370496)) (Fin (535928355657089 / 9007199254740992))) = Fin (1512083574889645 / 1125899906842624)"
  by (simp add: b64.simps b64_eval)

lemma cdp_sum25:
  "b64 (jadd (Fin (1512083574889645 / 1125899906842624)) (Fin (535928355657089 / 9007199254740992))) = Fin (1579074619346781 / 1125899906842624)"
  by (simp add: b64.simps b64_eval)

lemma cdp_sum26:
  "b64 (jadd (Fin (1579074619346781 / 1125899906842624)) (Fin (535928355657089 / 9007199254740992))) = Fin (1646065663803917 / 1125899906842624)"
  by (simp add: b64.simps b64_eval)

lemma cdp_sum27:
  "b64 (jadd (Fin (1646065663803917 / 1125899906842624)) (Fin (535928355657089 / 9007199254740992))) = Fin (1713056708261053 / 1125899906842624)"
  by (simp add: b64.simps b64_eval)

lemma cdp_sum28:
  "b64 (jadd (Fin (1713056708261053 / 1125899906842624)) (Fin (535928355657089 / 9007199254740992))) = Fin (1780047752718189 / 1125899906842624)"
  by (simp add: b64.simps b64_eval)

lemma cdp_sum29:
  "b64 (jadd (Fin (1780047752718189 / 1125899906842624)) (Fin (535928355657089 / 9007199254740992))) = Fin (1847038797175325 / 1125899906842624)"
  by (simp add: b64.simps b64_eval)

lemma cdp_sum30:
  "b64 (jadd (Fin (1847038797175325 / 1125899906842624)) (Fin (535928355657089 / 9007199254740992))) = Fin (1914029841632461 / 1125899906842624)"
  by (simp add: b64.simps b64_eval)

lemma cdp_diff:
  "b64 (jsub (Fin (7656119366529843 / 4503599627370496)) (Fin (1914029841632461 / 1125899906842624))) = Fin (- (1 / 4503599627370496))"
  by (simp add: b64.simps b64_eval)

lemma cdp_last_day:
  "b64 (jadd (Fin (535928355657089 / 9007199254740992)) (Fin (- (1 / 4503599627370496)))) = Fin (535928355657087 / 9007199254740992)"
  by (simp add: b64.simps b64_eval)

lemma cdp_sum_corrected:
  "b64 (jadd (Fin (1847038797175325 / 1125899906842624)) (Fin (535928355657087 / 9007199254740992))) = Fin (1914029841632461 / 1125899906842624)"
  by (simp add: b64.simps b64_eval)

lemmas cdp_steps =
  cdp_plan cdp_base cdp_literal cdp_last7 cdp_last7_total cdp_remaining_days
  cdp_remaining_plan cdp_early cdp_sum1 cdp_sum2 cdp_sum3 cdp_sum4 cdp_sum5 cdp_sum6
  cdp_sum7 cdp_sum8 cdp_sum9 cdp_sum10 cdp_sum11 cdp_sum12 cdp_sum13 cdp_sum14 cdp_sum15
  cdp_sum16 cdp_sum17 cdp_sum18 cdp_sum19 cdp_sum20 cdp_sum21 cdp_sum22 cdp_sum23 cdp_sum24
  cdp_sum25 cdp_sum26 cdp_sum27 cdp_sum28 cdp_sum29 cdp_sum30 cdp_diff cdp_last_day
  cdp_sum_corrected

lemma upt_1_31: "[1 ..< Suc 30] = [1, 2, 3, 4, 5, 6, 7, 8, 9, 10, 11, 12, 13, 14, 15, 16, 17, 18, 19, 20, 21, 22, 23, 24, 25, 26, 27, 28, 29, 30]"
  by (simp add: upt_rec)

text \<open>
  C2 (the code misses the claim): for a monthly plan of \<open>1.7\<close> and a month of 30 days the
  plans that calculateDailyPlans returns, added up from the left as the function itself
  adds them, give \<open>1.7000000000000002\<close> (the binary64 value
  \<open>1914029841632461 / 2\<^sup>5\<^sup>0\<close>), not the monthly plan \<open>1.7\<close> (the binary64 value
  \<open>7656119366529843 / 2\<^sup>5\<^sup>2\<close>): the remainder added to the final day is itself rounded.
\<close>

theorem calculateDailyPlans_sum_misses_monthlyPlan:
  "b64 (Fin (17 / 10)) = Fin (7656119366529843 / 4503599627370496)
   \<and> fsum (calculateDailyPlans (b64 (Fin (17 / 10))) 30) = Fin (1914029841632461 / 1125899906842624)
   \<and> \<not> jeq (fsum (calculateDailyPlans (b64 (Fin (17 / 10))) 30)) (b64 (Fin (17 / 10)))"
proof -
  have "fsum (calculateDailyPlans (b64 (Fin (17 / 10))) 30) = Fin (1914029841632461 / 1125899906842624)"
    apply (simp only: cdp_plan fsum_def calculateDailyPlans_def)
    apply (simp only: calculateDailyPlans_in_def Let_def of_nat_numeral cdp_steps upt_1_31)
    apply (simp add: jsum_in_def cdp_steps del: jadd.simps)
    done
  then show ?thesis by (simp add: cdp_plan jeq_def)
qed

subsection \<open>calculateDailyPlans in real arithmetic\<close>

lemma length_calculateDailyPlans_in: "length (calculateDailyPlans_in R mp d) = d"
  by (simp add: calculateDailyPlans_in_def Let_def)

lemma sum_list_update_real:
  "k < length xs \<Longrightarrow> sum_list (xs[k := x]) = sum_list xs + x - (xs ! k :: real)"
  by (induction xs arbitrary: k) (auto split: nat.splits)

lemma calculateDailyPlans_exact_values:
  fixes p :: real and d :: nat
  assumes "7 < d"
  defines "late \<equiv> p / real d * (105 / 100)"
  defines "early \<equiv> (p - late * 7) / (real d - 7)"
  defines "xs \<equiv> map (\<lambda>i. if int d - 7 < int i then late else early) [1 ..< Suc d]"
  shows "calculateDailyPlans_in exact (Fin p) d
         = map Fin (xs[d - 1 := xs ! (d - 1) + (p - sum_list xs)])"
proof -
  from assms(1) have d: "real d \<noteq> 0" "real d - 7 \<noteq> 0"
    by simp_all
  have b: "exact (jdiv (Fin p) (Fin (real d))) = Fin (p / real d)"
    using d by (simp add: exact_def jdiv_def)
  have l7: "exact (jmul (Fin (p / real d)) (exact (Fin (105 / 100)))) = Fin late"
    by (simp add: exact_def jmul_def late_def)
  have t: "exact (jmul (Fin late) (Fin 7)) = Fin (late * 7)"
    by (simp add: exact_def jmul_def)
  have rd: "exact (jsub (Fin (real d)) (Fin 7)) = Fin (real d - 7)"
    by (simp add: exact_def jsub_def)
  have rp: "exact (jsub (Fin p) (Fin (late * 7))) = Fin (p - late * 7)"
    by (simp add: exact_def jsub_def)
  have e: "exact (jdiv (Fin (p - late * 7)) (Fin (real d - 7))) = Fin early"
    using d by (simp add: exact_def jdiv_def early_def)
  have m: "map (\<lambda>i. if int d - 7 < int i then Fin late else Fin early) [1 ..< Suc d] = map Fin xs"
    by (simp add: xs_def)
  have l: "length xs = d"
    by (simp add: xs_def)
  have s: "exact (jsub (Fin p) (jsum_in exact (map Fin xs))) = Fin (p - sum_list xs)"
    by (simp add: jsum_in_exact_Fin) (simp add: exact_def jsub_def)
  have n: "exact (jadd (map Fin xs ! (d - 1)) (Fin (p - sum_list xs)))
           = Fin (xs ! (d - 1) + (p - sum_list xs))"
    using assms(1) l by (simp add: exact_def)
  have ne: "map Fin xs \<noteq> []"
    using assms(1) l by auto
  have "calculateDailyPlans_in exact (Fin p) d
        = (map Fin xs)[d - 1 := Fin (xs ! (d - 1) + (p - sum_list xs))]"
    unfolding calculateDailyPlans_in_def Let_def b l7 t rd rp e m s length_map l n
    using ne n assms(1) l by (simp add: exact_def)
  then show ?thesis
    by (simp add: map_update)
qed

lemma calculateDailyPlans_exact_sum:
  fixes p :: real
  assumes "7 < d"
  shows "jsum_in exact (calculateDailyPlans_in exact (Fin p) d) = Fin p"
proof -
  define late where "late = p / real d * (105 / 100)"
  define early where "early = (p - late * 7) / (real d - 7)"
  define xs where "xs = map (\<lambda>i. if int d - 7 < int i then late else early) [1 ..< Suc d]"
  have l: "d - 1 < length xs"
    using assms by (simp add: xs_def)
  have "sum_list (xs[d - 1 := xs ! (d - 1) + (p - sum_list xs)]) = p"
    using sum_list_update_real[OF l, of "xs ! (d - 1) + (p - sum_list xs)"] by simp
  moreover have "calculateDailyPlans_in exact (Fin p) d
         = map Fin (xs[d - 1 := xs ! (d - 1) + (p - sum_list xs)])"
    unfolding xs_def early_def late_def by (rule calculateDailyPlans_exact_values[OF assms])
  ultimately show ?thesis
    by (simp only: jsum_in_exact_Fin)
qed

lemma calculateDailyPlans_in_last7:
  assumes "i + 1 < d" "d \<le> i + 7"
  shows "calculateDailyPlans_in R mp d ! i
         = R (jmul (R (jdiv mp (Fin (real d)))) (R (Fin (105 / 100))))"
proof -
  have "[1 ..< Suc d] ! i = 1 + i"
    using assms(1) by (intro nth_upt) simp
  with assms show ?thesis
    by (simp add: calculateDailyPlans_in_def Let_def nth_list_update del: upt_Suc)
qed

subsection \<open>The sales allocator getDailyTarget\<close>

lemma monthLength_ge: "28 \<le> monthLength y m"
  by (simp add: monthLength_def)

lemma rollMonth_within: "d \<le> monthLength y m \<Longrightarrow> rollMonth y m d = m"
  by (subst rollMonth.simps) simp

lemma rollMonth_next:
  "rollMonth y m (Suc (monthLength y m)) = (if m = 11 then 0 else Suc m)"
  using monthLength_ge[of "if m = 11 then y + 1 else y" "if m = 11 then 0 else Suc m"]
  by (subst rollMonth.simps) (simp add: rollMonth_within)

lemma isLastDay_in_month:
  assumes "m < 12" "d \<le> daysInMonthOf y m"
  shows "isLastDay y m d = (d = daysInMonthOf y m)"
proof (cases "d = daysInMonthOf y m")
  case True
  with assms(1) show ?thesis
    by (simp add: isLastDay_def daysInMonthOf_def rollMonth_next)
next
  case False
  with assms show ?thesis
    by (simp add: isLastDay_def daysInMonthOf_def rollMonth_within)
qed

lemma getDailyTarget_in_month:
  assumes "m < 12" "d \<le> daysInMonthOf y m"
  shows "getDailyTarget_in R y m w tp d =
     (let totalWeights = R (jadd (R (jsub (Fin (real w)) (Fin 1))) (Fin (35 / 10)))
      in if d = daysInMonthOf y m
         then jround (R (jmul (R (jdiv tp totalWeights)) (Fin (35 / 10))))
         else jround (R (jdiv tp totalWeights)))"
  using assms by (simp add: getDailyTarget_in_def isLastDay_in_month Let_def)

lemma totalWeights_exact:
  "jadd (jsub (Fin (real w)) (Fin 1)) (Fin (35 / 10)) = Fin (real w - 1 + 35 / 10)"
  by (simp add: jsub_def)

lemma totalWeights_pos: "real w - 1 + 35 / 10 > 0"
  by simp

lemma getDailyTarget_exact_early:
  assumes "m < 12" "d < daysInMonthOf y m"
  shows "getDailyTarget_in exact y m w (Fin p) d = Fin (of_int \<lfloor>p / (real w - 1 + 35 / 10) + 1 / 2\<rfloor>)"
proof -
  have W: "real w - 1 + 35 / 10 \<noteq> 0" using totalWeights_pos[of w] by linarith
  have d: "d \<le> daysInMonthOf y m" "d \<noteq> daysInMonthOf y m" using assms(2) by simp_all
  show ?thesis
    by (simp only: getDailyTarget_in_month[OF assms(1) d(1)] exact_def totalWeights_exact Let_def d(2)
          if_False jdiv_Fin[OF W] jround.simps)
qed

lemma getDailyTarget_exact_closing:
  assumes "m < 12"
  shows "getDailyTarget_in exact y m w (Fin p) (daysInMonthOf y m)
     = Fin (of_int \<lfloor>p / (real w - 1 + 35 / 10) * (35 / 10) + 1 / 2\<rfloor>)"
proof -
  have W: "real w - 1 + 35 / 10 \<noteq> 0" using totalWeights_pos[of w] by linarith
  show ?thesis
    by (simp only: getDailyTarget_in_month[OF assms(1) order_refl] exact_def totalWeights_exact Let_def
          if_True jdiv_Fin[OF W] jmul_Fin jround.simps refl)
qed

lemma month_targets_exact:
  assumes "m < 12"
  shows "map (getDailyTarget_in exact y m w (Fin p)) [1 ..< Suc (daysInMonthOf y m)] =
     map Fin (replicate (daysInMonthOf y m - 1) (of_int \<lfloor>p / (real w - 1 + 35 / 10) + 1 / 2\<rfloor>)
              @ [of_int \<lfloor>p / (real w - 1 + 35 / 10) * (35 / 10) + 1 / 2\<rfloor>])"
proof -
  define n where "n = daysInMonthOf y m"
  define a :: real where "a = of_int \<lfloor>p / (real w - 1 + 35 / 10) + 1 / 2\<rfloor>"
  define b :: real where "b = of_int \<lfloor>p / (real w - 1 + 35 / 10) * (35 / 10) + 1 / 2\<rfloor>"
  have n1: "1 \<le> n" using monthLength_ge[of "fullYear y + int (m div 12)" "m mod 12"]
    by (simp add: n_def daysInMonthOf_def)
  have split: "[1 ..< Suc n] = [1 ..< n] @ [n]" using n1 by simp
  have "\<And>d. d \<in> set [1 ..< n] \<Longrightarrow> getDailyTarget_in exact y m w (Fin p) d = Fin a"
    using getDailyTarget_exact_early[OF assms, of _ y w p] by (simp add: n_def a_def)
  then have "map (getDailyTarget_in exact y m w (Fin p)) [1 ..< n] = map (\<lambda>d. Fin a) [1 ..< n]"
    by (intro map_cong) auto
  also have "\<dots> = map Fin (replicate (n - 1) a)"
    by (simp add: map_replicate_const)
  finally have early: "map (getDailyTarget_in exact y m w (Fin p)) [1 ..< n] = map Fin (replicate (n - 1) a)" .
  have last: "getDailyTarget_in exact y m w (Fin p) n = Fin b"
    using getDailyTarget_exact_closing[OF assms, of y w p] by (simp add: n_def b_def)
  have "map (getDailyTarget_in exact y m w (Fin p)) [1 ..< Suc n] = map Fin (replicate (n - 1) a @ [b])"
    by (simp only: split map_append early last list.map)
  then show ?thesis by (simp only: n_def a_def b_def)
qed

text \<open>
  C8 (amended): with \<open>totalWeights = (workingDaysCount - 1) + 3.5\<close>, a day of the month that
  is not its last day gets \<open>Math.round(totalPlan / totalWeights)\<close> and the last day gets
  \<open>Math.round((totalPlan / totalWeights) * 3.5)\<close>, whatever the rounding \<open>R\<close> of the
  arithmetic: every target is a whole number, and the last day's is the rounding of 3.5
  unrounded shares. When every day of the month is a working day, the targets of the month
  add up, in exact arithmetic, to within half a unit per day of the monthly tp.
\<close>

theorem getDailyTarget_rounds_to_whole_units:
  assumes "selectedMonth < 12"
  shows "(\<forall>day. day \<le> daysInMonthOf selectedYear selectedMonth \<longrightarrow>
            getDailyTarget_in R selectedYear selectedMonth workingDaysCount totalPlan day =
              (let totalWeights = R (jadd (R (jsub (Fin (real workingDaysCount)) (Fin 1))) (Fin (35 / 10)))
               in if day = daysInMonthOf selectedYear selectedMonth
                  then jround (R (jmul (R (jdiv totalPlan totalWeights)) (Fin (35 / 10))))
                  else jround (R (jdiv totalPlan totalWeights))))
       \<and> (\<exists>t. jsum_in exact
                 (map (getDailyTarget_in exact selectedYear selectedMonth
                         (daysInMonthOf selectedYear selectedMonth) (Fin p))
                    [1 ..< Suc (daysInMonthOf selectedYear selectedMonth)]) = Fin t
               \<and> \<bar>t - p\<bar> \<le> real (daysInMonthOf selectedYear selectedMonth) / 2)"
proof (intro conjI allI impI)
  fix day assume "day \<le> daysInMonthOf selectedYear selectedMonth"
  with assms show "getDailyTarget_in R selectedYear selectedMonth workingDaysCount totalPlan day =
              (let totalWeights = R (jadd (R (jsub (Fin (real workingDaysCount)) (Fin 1))) (Fin (35 / 10)))
               in if day = daysInMonthOf selectedYear selectedMonth
                  then jround (R (jmul (R (jdiv totalPlan totalWeights)) (Fin (35 / 10))))
                  else jround (R (jdiv totalPlan totalWeights)))"
    by (rule getDailyTarget_in_month)
next
  define n where "n = daysInMonthOf selectedYear selectedMonth"
  define W where "W = real n - 1 + 35 / 10"
  define q where "q = p / W"
  define a :: real where "a = of_int \<lfloor>q + 1 / 2\<rfloor>"
  define b :: real where "b = of_int \<lfloor>q * (35 / 10) + 1 / 2\<rfloor>"
  have n1: "1 \<le> n"
    using monthLength_ge[of "fullYear selectedYear + int (selectedMonth div 12)" "selectedMonth mod 12"]
    by (simp add: n_def daysInMonthOf_def)
  have "map (getDailyTarget_in exact selectedYear selectedMonth n (Fin p)) [1 ..< Suc n]
      = map Fin (replicate (n - 1) a @ [b])"
    unfolding a_def b_def q_def W_def n_def by (rule month_targets_exact[OF assms])
  then have sum: "jsum_in exact (map (getDailyTarget_in exact selectedYear selectedMonth n (Fin p)) [1 ..< Suc n])
      = Fin (real (n - 1) * a + b)"
    by (simp only: jsum_in_exact_Fin) (simp add: sum_list_replicate)
  have W: "W > 0" unfolding W_def by (rule totalWeights_pos)
  have Wn: "W = real (n - 1) + 35 / 10" using n1 by (simp add: W_def of_nat_diff)
  have "q * W = p" using W by (simp add: q_def)
  then have p: "p = real (n - 1) * q + q * (35 / 10)"
    by (simp add: Wn algebra_simps)
  have ea: "\<bar>a - q\<bar> \<le> 1 / 2" unfolding a_def by (rule round_half_up_close)
  have eb: "\<bar>b - q * (35 / 10)\<bar> \<le> 1 / 2" unfolding b_def by (rule round_half_up_close)
  have "real (n - 1) * a + b - p = real (n - 1) * (a - q) + (b - q * (35 / 10))"
    by (subst p) (simp add: algebra_simps)
  then have "\<bar>real (n - 1) * a + b - p\<bar> \<le> \<bar>real (n - 1) * (a - q)\<bar> + \<bar>b - q * (35 / 10)\<bar>"
    by (simp only: abs_triangle_ineq)
  also have "\<bar>real (n - 1) * (a - q)\<bar> = real (n - 1) * \<bar>a - q\<bar>"
    by (simp add: abs_mult)
  also have "real (n - 1) * \<bar>a - q\<bar> + \<bar>b - q * (35 / 10)\<bar> \<le> real (n - 1) * (1 / 2) + 1 / 2"
    using ea eb by (intro add_mono mult_left_mono) simp_all
  also have "\<dots> = real n / 2" using n1 by (simp add: of_nat_diff field_simps)
  finally have "\<bar>real (n - 1) * a + b - p\<bar> \<le> real n / 2" .
  with sum show "\<exists>t. jsum_in exact
                 (map (getDailyTarget_in exact selectedYear selectedMonth
                         (daysInMonthOf selectedYear selectedMonth) (Fin p))
                    [1 ..< Suc (daysInMonthOf selectedYear selectedMonth)]) = Fin t
               \<and> \<bar>t - p\<bar> \<le> real (daysInMonthOf selectedYear selectedMonth) / 2"
    unfolding n_def by blast
qed

theorem getDailyTarget_rounds_to_whole_units_witness:
  "(10 :: nat) < 12
   \<and> getDailyTarget_in b64 2025 10 30 (Fin 100) 30 =
       jround (b64 (jmul (b64 (jdiv (Fin 100) (b64 (jadd (b64 (jsub (Fin 30) (Fin 1)))
          (Fin (35 / 10)))))) (Fin (35 / 10))))
   \<and> (\<exists>t. jsum_in exact (map (getDailyTarget_in exact 2025 10 (daysInMonthOf 2025 10) (Fin 100))
              [1 ..< Suc (daysInMonthOf 2025 10)]) = Fin t
          \<and> \<bar>t - 100\<bar> \<le> real (daysInMonthOf 2025 10) / 2)"
proof -
  have m: "(10 :: nat) < 12" by simp
  have d: "daysInMonthOf 2025 10 = 30"
    by (simp add: daysInMonthOf_def monthLength_def fullYear_def)
  from getDailyTarget_rounds_to_whole_units[OF m, of 2025 b64 30 "Fin 100" 100]
  show ?thesis by (simp add: d Let_def)
qed

subsection \<open>getDailyTarget at a tp of 100 in November 2025, every day a working day\<close>

lemma gdt_weights:
  "b64 (Fin (65 / 2)) = Fin (65 / 2)"
  by (simp add: b64.simps b64_eval)

lemma gdt_share:
  "b64 (Fin (40 / 13)) = Fin (6928614811339225 / 2251799813685248)"
  by (simp add: b64.simps b64_eval)

lemma gdt_closing_share:
  "b64 (Fin (48500303679374575 / 4503599627370496)) = Fin (3031268979960911 / 281474976710656)"
  by (simp add: b64.simps b64_eval)

lemma november_2025: "daysInMonthOf 2025 10 = 30"
  by (simp add: daysInMonthOf_def monthLength_def fullYear_def)

lemma gdt_early_day:
  "d < 30 \<Longrightarrow> getDailyTarget 2025 10 30 (Fin 100) d = Fin 3"
  by (simp add: getDailyTarget_def getDailyTarget_in_month november_2025 Let_def jsub_def
        gdt_weights jdiv_def gdt_share)

lemma gdt_closing_day: "getDailyTarget 2025 10 30 (Fin 100) 30 = Fin 11"
  by (simp add: getDailyTarget_def getDailyTarget_in_month november_2025 Let_def jsub_def
        gdt_weights jdiv_def gdt_share jmul_def gdt_closing_share)

lemma upt_1_30: "[1 ..< 30] = [1, 2, 3, 4, 5, 6, 7, 8, 9, 10, 11, 12, 13, 14, 15, 16, 17, 18, 19, 20, 21, 22, 23, 24, 25, 26, 27, 28, 29]"
  by (simp add: upt_rec)

text \<open>
  C8 (counterexample): with a monthly tp of 100 and the 30 days of November 2025 all
  working days, the share of a day is \<open>100 / 32.5 = 3.0769...\<close>, but the target of day 1
  is 3; the target of the last day is 11, which is neither 3.5 times the target of a day
  (10.5) nor 3.5 times the share (10.769...); and the targets of the 30 days add up to
  98, two units short of the tp.
\<close>

theorem getDailyTarget_counterexample:
  "getDailyTarget 2025 10 30 (Fin 100) 1 = Fin 3
   \<and> fdiv (Fin 100) (fadd (fsub (Fin 30) (Fin 1)) (Fin (35 / 10)))
       = Fin (6928614811339225 / 2251799813685248)
   \<and> getDailyTarget 2025 10 30 (Fin 100) 30 = Fin 11
   \<and> fmul (Fin 3) (Fin (35 / 10)) = Fin (21 / 2)
   \<and> fsum (map (getDailyTarget 2025 10 30 (Fin 100)) [1 ..< Suc 30]) = Fin 98"
proof -
  have half: "b64 (Fin (21 / 2)) = Fin (21 / 2)"
    by (simp add: b64.simps b64_eval)
  have days: "[1 ..< Suc 30] = [1 ..< 30] @ [30]" by (rule upt_Suc_append) simp
  have "fsum (map (getDailyTarget 2025 10 30 (Fin 100)) [1 ..< Suc 30]) = Fin 98"
    by (simp only: days upt_1_30) (simp add: gdt_early_day gdt_closing_day fsum_def jsum_in_def)
  then show ?thesis
    by (simp add: gdt_early_day gdt_closing_day fdiv_def fadd_def fsub_def fmul_def jsub_def
          jdiv_def jmul_def gdt_weights gdt_share half)
qed

subsection \<open>Evaluating strings\<close>

lemmas str_eval = toLowerCase_def toUpperCase_def lowerChar_def upperChar_def upperLetters_def
  lowerLetters_def digitChars_def isDigit_def isLetter_def isSpace_def trim_def removeCommas_def
  removeParens_def startsWith_def endsWith_def digitValue_def digitsValue_def

lemma mapKeys_empty: "mapKeys Map.empty = []"
  by (simp add: mapKeys_def)

lemma filter_eq_upt: "k < n \<Longrightarrow> filter (\<lambda>d. d = k) [0 ..< n] = [k]"
  by (induction n) auto

lemma mapKeys_single: "k < 100 \<Longrightarrow> mapKeys [k \<mapsto> v] = [k]"
  using filter_eq_upt[of k 100] by (simp add: mapKeys_def)

lemmas sales_eval = mapKeys_empty mapKeys_single parseSalesExcel_def salesHeaderIndex_def isSalesHeaderRow_def
  isSalesHeaderCell_def orIndex_def dateColumns_def addDateColumn_def matchDateHeader_def
  capitalize_def isDateSep_def salesFactsOfDay_def salesFact_def cellAt_def
  monthName_def getFYLabel_def pad_def padStart2_def intToString_def jsrem_def natDigits.simps
  cleanValue_def parseFloat_def readUnsigned_def readExponent_def pow10_def jtruthy_def jeq_def
  Let_def

subsection \<open>cleanValue\<close>

text \<open>
  C6 (the code misses the claim): for the cell \<open>(abc)\<close> cleanValue returns NaN, not 0. The
  branch for a parenthesized value returns \<open>-1 * parseFloat(...)\<close> without the \<open>|| 0\<close> of
  the branch below it.
\<close>

theorem cleanValue_parenthesized_text_is_NaN:
  "cleanValue (CStr ''(abc)'') = NaN"
  by (simp add: cleanValue_def str_eval parseFloat_def readUnsigned_def fmul_def jmul_def
        jtruthy_def Let_def)

subsection \<open>parseSalesExcel\<close>

text \<open>
  C4 (the code misses the claim): on the grid of the scenario, for November 2025,
  parseSalesExcel returns no record at all: the month of the header, \<open>Nov\<close>, is looked up
  in the table of month names, which holds \<open>November\<close>. Were the table one of three-letter
  names, the one record would carry the team \<open>ACHIEVERS\<close> and the date \<open>Nov 1, 2025\<close>: the
  team is not put in title case and the day is not padded.
\<close>

theorem parseSalesExcel_november_scenario:
  "parseSalesExcel MONTH_NAMES SALES_TEAMS dailyNovemberGrid 10 2025 False False = Inr []
   \<and> parseSalesExcel (map (take 3) MONTH_NAMES) SALES_TEAMS dailyNovemberGrid 10 2025 False False
       = Inr [expectedNovemberFact\<lparr>team := ''ACHIEVERS'', reportDate := ''Nov 1, 2025''\<rparr>]"
  by (simp add: dailyNovemberGrid_def expectedNovemberFact_def MONTH_NAMES_def SALES_TEAMS_def
        sales_eval str_eval)

text \<open>
  C1 (the code misses the claim): a daily sheet whose only date column is of December
  2025, parsed for November 2025, gives the empty list of records and no error.
\<close>

theorem parseSalesExcel_no_date_column_returns_empty:
  "parseSalesExcel MONTH_NAMES SALES_TEAMS dailyDecemberGrid 10 2025 False False = Inr []"
  by (simp add: dailyDecemberGrid_def MONTH_NAMES_def SALES_TEAMS_def sales_eval str_eval)

text \<open>In daily mode, a header row with no date column of the month gives no record, whatever the rows.\<close>

lemma parseSalesExcel_without_date_columns:
  assumes "rows \<noteq> []"
    and "dateColumns monthNames selectedMonth (rows ! salesHeaderIndex rows) = Map.empty"
  shows "parseSalesExcel monthNames salesTeams rows selectedMonth selectedYear False isTerritory
     = Inr []"
  using assms by (simp add: parseSalesExcel_def Let_def mapKeys_empty)

text \<open>Every record of the row loop is built from the normalized value of a cell of a row.\<close>

lemma scanSalesRows_facts:
  "f \<in> set (scanSalesRows salesTeams h t r p idx isMaster date fyLabel cur i rows) \<Longrightarrow>
     \<exists>row \<in> set rows. \<exists>dept tm m.
        f = salesFact dept tm m (cleanValue (cellAt row idx)) isMaster date fyLabel"
proof (induction rows arbitrary: cur i)
  case Nil
  then show ?case by simp
next
  case (Cons row rest)
  show ?case
  proof (cases "i = h")
    case True
    with Cons.prems have "f \<in> set (scanSalesRows salesTeams h t r p idx isMaster date fyLabel cur (Suc i) rest)"
      by simp
    from Cons.IH[OF this] show ?thesis by auto
  next
    case False
    define team' where "team' = (case find (\<lambda>t'. toUpperCase (String_of (cellAt row (orIndex t 0))) = t') salesTeams of
                       Some t' \<Rightarrow> if t' \<noteq> [] then t' else cur | None \<Rightarrow> cur)"
    from Cons.prems False
    have "(\<exists>dept tm m. f = salesFact dept tm m (cleanValue (cellAt row idx)) isMaster date fyLabel)
        \<or> f \<in> set (scanSalesRows salesTeams h t r p idx isMaster date fyLabel team' (Suc i) rest)"
      unfolding team'_def by (auto simp: Let_def split: if_splits)
    then show ?thesis
    proof
      assume "\<exists>dept tm m. f = salesFact dept tm m (cleanValue (cellAt row idx)) isMaster date fyLabel"
      then show ?thesis by auto
    next
      assume "f \<in> set (scanSalesRows salesTeams h t r p idx isMaster date fyLabel team' (Suc i) rest)"
      from Cons.IH[OF this] show ?thesis by auto
    qed
  qed
qed

lemma jsub_zero_right: "jsub v (Fin 0) = v"
  by (cases v) (simp_all add: jsub_def)

lemma jsub_zero_left: "jsub (Fin 0) v = jneg v"
  by (cases v) (simp_all add: jsub_def)

text \<open>
  C7: every record that parseSalesExcel returns has \<open>variance = actual - plan\<close> (the
  difference is exact: one of its operands is 0). A record of a master sheet has the
  normalized value of a cell as its plan, actual 0, variance \<open>-plan\<close> and the report date
  \<open>MASTER_<Month>_<Year>\<close>; a record of a daily sheet has plan 0, the normalized value of
  a cell as its actual, variance \<open>+actual\<close> and the report date of a day.
\<close>

theorem parseSalesExcel_variance_convention:
  assumes "parseSalesExcel monthNames salesTeams rows selectedMonth selectedYear isMaster isTerritory
             = Inr facts"
    and "f \<in> set facts"
  shows "variance f = jsub (actual f) (plan f)
     \<and> (\<exists>row \<in> set rows. \<exists>idx.
          if isMaster
          then plan f = cleanValue (cellAt row idx) \<and> actual f = Fin 0
               \<and> variance f = jneg (plan f)
               \<and> reportDate f = ''MASTER_'' @ monthName monthNames selectedMonth @ ''_''
                                  @ intToString selectedYear
          else plan f = Fin 0 \<and> actual f = cleanValue (cellAt row idx)
               \<and> variance f = actual f
               \<and> (\<exists>day. reportDate f = monthName monthNames selectedMonth @ '' '' @ natDigits day
                                          @ '', '' @ intToString selectedYear))"
proof -
  from assms obtain day dataIdx where
    "f \<in> set (salesFactsOfDay monthNames salesTeams rows selectedMonth selectedYear isMaster day dataIdx)"
    by (auto simp: parseSalesExcel_def Let_def split: if_splits)
  then obtain h t r p idx date where
    f: "f \<in> set (scanSalesRows salesTeams h t r p idx isMaster date
                    (getFYLabel selectedMonth selectedYear) [] 0 rows)"
    and date: "date = (if isMaster
                  then ''MASTER_'' @ monthName monthNames selectedMonth @ ''_''
                       @ intToString selectedYear
                  else monthName monthNames selectedMonth @ '' '' @ natDigits day @ '', ''
                       @ intToString selectedYear)"
    by (auto simp: salesFactsOfDay_def Let_def split: option.splits)
  from scanSalesRows_facts[OF f] obtain row dept tm m where
    row: "row \<in> set rows"
    and fact: "f = salesFact dept tm m (cleanValue (cellAt row idx)) isMaster date
                     (getFYLabel selectedMonth selectedYear)"
    by blast
  have "variance f = jsub (actual f) (plan f)"
    by (simp add: fact salesFact_def jsub_zero_right jsub_zero_left)
  moreover have "\<exists>idx.
          if isMaster
          then plan f = cleanValue (cellAt row idx) \<and> actual f = Fin 0
               \<and> variance f = jneg (plan f)
               \<and> reportDate f = ''MASTER_'' @ monthName monthNames selectedMonth @ ''_''
                                  @ intToString selectedYear
          else plan f = Fin 0 \<and> actual f = cleanValue (cellAt row idx)
               \<and> variance f = actual f
               \<and> (\<exists>day. reportDate f = monthName monthNames selectedMonth @ '' '' @ natDigits day
                                          @ '', '' @ intToString selectedYear)"
    by (rule exI[of _ idx]) (auto simp: fact salesFact_def date)
  ultimately show ?thesis using row by blast
qed

lemma parseSalesExcel_master_scenario:
  "parseSalesExcel MONTH_NAMES SALES_TEAMS masterGrid 10 2025 True False = Inr [masterFact]"
  by (simp add: masterGrid_def masterFact_def MONTH_NAMES_def SALES_TEAMS_def sales_eval str_eval)

theorem parseSalesExcel_variance_convention_witness:
  "parseSalesExcel MONTH_NAMES SALES_TEAMS masterGrid 10 2025 True False = Inr [masterFact]
   \<and> masterFact \<in> set [masterFact]
   \<and> variance masterFact = jsub (actual masterFact) (plan masterFact)
   \<and> (\<exists>row \<in> set masterGrid. \<exists>idx.
         plan masterFact = cleanValue (cellAt row idx) \<and> actual masterFact = Fin 0
         \<and> variance masterFact = jneg (plan masterFact)
         \<and> reportDate masterFact = ''MASTER_'' @ monthName MONTH_NAMES 10 @ ''_'' @ intToString 2025)"
proof -
  have m: "masterFact \<in> set [masterFact]" by simp
  from parseSalesExcel_variance_convention[OF parseSalesExcel_master_scenario m]
  show ?thesis using parseSalesExcel_master_scenario by (simp add: jsub_zero_left)
qed

subsection \<open>findIndex\<close>

lemma findIndex_None_iff: "findIndex p xs = None \<longleftrightarrow> (\<forall>x \<in> set xs. \<not> p x)"
  by (induction xs) auto

lemma findIndex_Some_less: "findIndex p xs = Some i \<Longrightarrow> i < length xs"
  by (induction xs arbitrary: i) (auto split: if_splits)

lemma findIndex_take_Some: "findIndex p (take n xs) = Some i \<Longrightarrow> i < length xs \<and> i < n"
  using findIndex_Some_less[of p "take n xs" i] by simp

lemma findIndex_take_append:
  "findIndex p (take n xs) = Some i \<Longrightarrow> findIndex p (take n (take (Suc i) xs @ ys)) = Some i"
proof (induction xs arbitrary: i n)
  case Nil
  then show ?case by simp
next
  case (Cons x xs)
  show ?case
  proof (cases n)
    case 0
    with Cons.prems show ?thesis by simp
  next
    case (Suc m)
    show ?thesis
    proof (cases "p x")
      case True
      with Cons.prems Suc show ?thesis by simp
    next
      case False
      with Cons.prems Suc obtain j where j: "findIndex p (take m xs) = Some j" "i = Suc j"
        by auto
      from Cons.IH[OF j(1)] False Suc j(2) show ?thesis by simp
    qed
  qed
qed

subsection \<open>parseProductionExcel\<close>

lemma productionRowKept_plan:
  "productionRowKept col row \<Longrightarrow> cleanValue (cellAt row col) \<noteq> Fin 0"
  by (auto simp: productionRowKept_def jeq_def)

lemma monthlyPlan_particularOf:
  "monthlyPlan (particularOf col firstCol days row) = cleanValue (cellAt row col)"
  by (simp add: particularOf_def Let_def)

lemma particularName_particularOf:
  "particularName (particularOf col firstCol days row) = productionRowName row"
  by (simp add: particularOf_def Let_def)

lemma productionParticulars_plan:
  "p \<in> set (productionParticulars col firstCol days dataRows) \<Longrightarrow> monthlyPlan p \<noteq> Fin 0"
  by (auto simp: productionParticulars_def monthlyPlan_particularOf productionRowKept_plan)

lemma productionParticulars_without_zero_plans:
  "productionParticulars col firstCol days
     (filter (\<lambda>row. \<not> jeq (cleanValue (cellAt row col)) (Fin 0)) dataRows)
   = productionParticulars col firstCol days dataRows"
proof -
  have "filter (productionRowKept col)
          (filter (\<lambda>row. \<not> jeq (cleanValue (cellAt row col)) (Fin 0)) dataRows)
        = filter (productionRowKept col) dataRows"
    by (induction dataRows) (auto simp: productionRowKept_def)
  then show ?thesis by (simp add: productionParticulars_def)
qed

lemma parseProductionExcel_withoutZeroPlanRows:
  "parseProductionExcel monthNames now (withoutZeroPlanRows rows) selectedMonth selectedYear
   = parseProductionExcel monthNames now rows selectedMonth selectedYear"
proof (cases "findIndex isProductionHeaderRow (take 10 rows)")
  case None
  then show ?thesis by (simp add: withoutZeroPlanRows_def)
next
  case (Some h)
  define col where "col = orIndex (findIndex isMonthlyPlanHeader (rows ! h)) 1"
  define kept where
    "kept = filter (\<lambda>row. \<not> jeq (cleanValue (cellAt row col)) (Fin 0)) (drop (Suc h) rows)"
  from findIndex_take_Some[OF Some] have h: "h < length rows" by simp
  have w: "withoutZeroPlanRows rows = take (Suc h) rows @ kept"
    by (simp add: withoutZeroPlanRows_def Some kept_def col_def)
  have hd: "findIndex isProductionHeaderRow (take 10 (take (Suc h) rows @ kept)) = Some h"
    by (rule findIndex_take_append[OF Some])
  have nth: "(take (Suc h) rows @ kept) ! h = rows ! h"
    using h by (simp add: nth_append)
  have dr: "drop (Suc h) (take (Suc h) rows @ kept) = kept"
    using h by simp
  have ps: "productionParticulars col firstCol days kept
            = productionParticulars col firstCol days (drop (Suc h) rows)" for firstCol days
    unfolding kept_def by (rule productionParticulars_without_zero_plans)
  show ?thesis
    unfolding w parseProductionExcel_def hd Some
    by (simp only: option.case Let_def nth dr ps[unfolded col_def])
qed

text \<open>
  C10: every particular of a report of parseProductionExcel has a monthly plan other
  than 0. The three totals of the report are the sums over these particulars, and the
  report is the one of the sheet without the data rows whose plan cell cleanValue turns
  into 0: such a row leaves no trace in the report.
\<close>

theorem parseProductionExcel_keeps_no_zero_plan:
  assumes "parseProductionExcel monthNames now rows selectedMonth selectedYear = Inr report"
  shows "(\<forall>p \<in> set (particulars report). monthlyPlan p \<noteq> Fin 0)
         \<and> totalMonthlyPlan report = fsum (map monthlyPlan (particulars report))
         \<and> prodTotalAchieved report = fsum (map totalAchieved (particulars report))
         \<and> totalRemaining report = fsum (map remaining (particulars report))
         \<and> parseProductionExcel monthNames now (withoutZeroPlanRows rows) selectedMonth
               selectedYear = Inr report"
proof (cases "findIndex isProductionHeaderRow (take 10 rows)")
  case None
  with assms show ?thesis by (simp add: parseProductionExcel_def)
next
  case (Some h)
  from assms Some have
    "(\<forall>p \<in> set (particulars report). monthlyPlan p \<noteq> Fin 0)
     \<and> totalMonthlyPlan report = fsum (map monthlyPlan (particulars report))
     \<and> prodTotalAchieved report = fsum (map totalAchieved (particulars report))
     \<and> totalRemaining report = fsum (map remaining (particulars report))"
    by (auto simp: parseProductionExcel_def Let_def productionParticulars_plan)
  with assms parseProductionExcel_withoutZeroPlanRows[of monthNames now rows selectedMonth
      selectedYear]
  show ?thesis by simp
qed

lemma productionGrid_header:
  "findIndex isProductionHeaderRow (take 10 productionGrid) = Some 0"
  by (simp add: productionGrid_def isProductionHeaderRow_def joinRow_def str_eval
        Let_def)

lemma productionGrid_columns:
  "findIndex isMonthlyPlanHeader (productionGrid ! 0) = Some 1"
  by (simp add: productionGrid_def isMonthlyPlanHeader_def str_eval Let_def)

lemma productionGrid_kept:
  "filter (productionRowKept (Suc 0)) (drop (Suc 0) productionGrid)
   = [[CStr ''Tablets'', CNum (Fin 3000), CNum (Fin 100), CStr ''50'']]"
  by (simp add: productionGrid_def productionRowKept_def productionRowName_def orElse_def
        cellAt_def cleanValue_def parseFloat_def readUnsigned_def jtruthy_def jeq_def str_eval
        Let_def)

lemma productionGrid_particulars:
  "map particularName (productionParticulars (Suc 0) firstCol days (drop (Suc 0) productionGrid))
   = [''Tablets'']"
  "map monthlyPlan (productionParticulars (Suc 0) firstCol days (drop (Suc 0) productionGrid))
   = [Fin 3000]"
  by (simp_all add: productionParticulars_def productionGrid_kept particularName_particularOf
        monthlyPlan_particularOf productionRowName_def orElse_def cellAt_def cleanValue_def
        str_eval)

theorem parseProductionExcel_keeps_no_zero_plan_witness:
  "\<exists>report. parseProductionExcel MONTH_NAMES ''2025-02-28T09:00:00.000Z'' productionGrid 1 2025
              = Inr report
     \<and> map particularName (particulars report) = [''Tablets'']
     \<and> map monthlyPlan (particulars report) = [Fin 3000]
     \<and> parseProductionExcel MONTH_NAMES ''2025-02-28T09:00:00.000Z''
         (withoutZeroPlanRows productionGrid) 1 2025 = Inr report"
proof -
  obtain report where
    r: "parseProductionExcel MONTH_NAMES ''2025-02-28T09:00:00.000Z'' productionGrid 1 2025
        = Inr report"
    by (simp add: parseProductionExcel_def productionGrid_header Let_def)
  from r have "map particularName (particulars report) = [''Tablets'']
     \<and> map monthlyPlan (particulars report) = [Fin 3000]"
    by (auto simp: parseProductionExcel_def productionGrid_header productionGrid_columns
          orIndex_def Let_def productionGrid_particulars)
  with r parseProductionExcel_keeps_no_zero_plan[OF r] show ?thesis
    by (intro exI[of _ report]) simp
qed

subsection \<open>A sheet with no header row\<close>

lemma parseFinanceExcel_no_header:
  "list_all (\<lambda>row. \<not> isParticularsRow row) (take 50 rows) \<Longrightarrow>
   parseFinanceExcel monthNames now rows selectedMonth selectedYear
   = Inl (Error ''Missing Finance headers'')"
  using findIndex_None_iff[of isParticularsRow "take 50 rows"]
  by (simp add: parseFinanceExcel_def list_all_iff)

lemma parseProductionExcel_no_header:
  "list_all (\<lambda>row. \<not> isProductionHeaderRow row) (take 10 rows) \<Longrightarrow>
   parseProductionExcel monthNames now rows selectedMonth selectedYear
   = Inl (Error ''Missing Production headers'')"
  using findIndex_None_iff[of isProductionHeaderRow "take 10 rows"]
  by (simp add: parseProductionExcel_def list_all_iff)

lemma salesHeaderIndex_no_header:
  "list_all (\<lambda>row. \<not> isSalesHeaderRow row) rows \<Longrightarrow> salesHeaderIndex rows = 0"
  using findIndex_None_iff[of isSalesHeaderRow rows]
  by (simp add: salesHeaderIndex_def orIndex_def list_all_iff)

lemma uploadHeaderIndex_no_header:
  "list_all (\<lambda>row. \<not> isUploadHeaderRow row) rows \<Longrightarrow> uploadHeaderIndex rows = 0"
  using findIndex_None_iff[of isUploadHeaderRow rows]
  by (simp add: uploadHeaderIndex_def orIndex_def list_all_iff)

lemma parseSalesExcel_returns:
  "rows \<noteq> [] \<Longrightarrow>
   \<exists>facts. parseSalesExcel monthNames salesTeams rows selectedMonth selectedYear isMaster
             isTerritory = Inr facts"
  by (simp add: parseSalesExcel_def Let_def)

lemma headerlessGrid_rows:
  "list_all (\<lambda>row. \<not> isParticularsRow row) (take 50 headerlessGrid)"
  "list_all (\<lambda>row. \<not> isProductionHeaderRow row) (take 10 headerlessGrid)"
  "list_all (\<lambda>row. \<not> isSalesHeaderRow row) headerlessGrid"
  "list_all (\<lambda>row. \<not> isUploadHeaderRow row) headerlessGrid"
  by (simp_all add: headerlessGrid_def isParticularsRow_def isProductionHeaderRow_def
        isSalesHeaderRow_def isSalesHeaderCell_def isUploadHeaderRow_def isUploadHeaderCell_def
        joinRow_def str_eval Let_def)

text \<open>
  C5 (counterexample): no row of the sheet holds a header token of parseSalesExcel, and
  the parser returns a record all the same, read with row 0 as the header row.
\<close>

theorem parseSalesExcel_headerless_counterexample:
  "\<not> list_ex isSalesHeaderRow headerlessGrid
   \<and> parseSalesExcel MONTH_NAMES SALES_TEAMS headerlessGrid 4 2025 False False
       = Inr [headerlessFact]"
  by (simp add: headerlessGrid_def headerlessFact_def MONTH_NAMES_def SALES_TEAMS_def
        sales_eval str_eval)

text \<open>
  C5 (amended): parseFinanceExcel fails with the error \<open>Missing Finance headers\<close> when no
  row among the first 50 has \<open>particulars\<close> in it, and parseProductionExcel with the
  error \<open>Missing Production headers\<close> when no row among the first 10 has the marks of its
  header; the message does not name the tokens. The two sales paths have no such error:
  when no row at all holds one of their tokens, parseSalesExcel and handleUpload take
  row 0 for the header row, and parseSalesExcel returns its records for every sheet
  that has a row.
\<close>

theorem header_row_not_found:
  "(list_all (\<lambda>row. \<not> isParticularsRow row) (take 50 rows) \<longrightarrow>
      parseFinanceExcel monthNames now rows selectedMonth selectedYear
      = Inl (Error ''Missing Finance headers''))
   \<and> (list_all (\<lambda>row. \<not> isProductionHeaderRow row) (take 10 rows) \<longrightarrow>
      parseProductionExcel monthNames now rows selectedMonth selectedYear
      = Inl (Error ''Missing Production headers''))
   \<and> (list_all (\<lambda>row. \<not> isSalesHeaderRow row) rows \<longrightarrow> salesHeaderIndex rows = 0)
   \<and> (list_all (\<lambda>row. \<not> isUploadHeaderRow row) rows \<longrightarrow> uploadHeaderIndex rows = 0)
   \<and> (rows \<noteq> [] \<longrightarrow>
      (\<exists>facts. parseSalesExcel monthNames salesTeams rows selectedMonth selectedYear isMaster
                 isTerritory = Inr facts))"
  using parseFinanceExcel_no_header[of rows monthNames now selectedMonth selectedYear]
    parseProductionExcel_no_header[of rows monthNames now selectedMonth selectedYear]
    salesHeaderIndex_no_header[of rows] uploadHeaderIndex_no_header[of rows]
    parseSalesExcel_returns[of rows monthNames salesTeams selectedMonth selectedYear isMaster
      isTerritory]
  by blast

theorem header_row_not_found_witness:
  "list_all (\<lambda>row. \<not> isParticularsRow row) (take 50 headerlessGrid)
   \<and> list_all (\<lambda>row. \<not> isProductionHeaderRow row) (take 10 headerlessGrid)
   \<and> list_all (\<lambda>row. \<not> isSalesHeaderRow row) headerlessGrid
   \<and> list_all (\<lambda>row. \<not> isUploadHeaderRow row) headerlessGrid
   \<and> headerlessGrid \<noteq> []
   \<and> parseFinanceExcel MONTH_NAMES ''2025-05-02T09:00:00.000Z'' headerlessGrid 4 2025
       = Inl (Error ''Missing Finance headers'')
   \<and> parseProductionExcel MONTH_NAMES ''2025-05-02T09:00:00.000Z'' headerlessGrid 4 2025
       = Inl (Error ''Missing Production headers'')
   \<and> salesHeaderIndex headerlessGrid = 0
   \<and> uploadHeaderIndex headerlessGrid = 0
   \<and> (\<exists>facts. parseSalesExcel MONTH_NAMES SALES_TEAMS headerlessGrid 4 2025 False False
                 = Inr facts)"
proof -
  have ne: "headerlessGrid \<noteq> []"
    by (simp add: headerlessGrid_def)
  from header_row_not_found[of headerlessGrid MONTH_NAMES "''2025-05-02T09:00:00.000Z''" 4 2025
      SALES_TEAMS False False] headerlessGrid_rows ne
  show ?thesis by blast
qed

subsection \<open>The merge of finance reports\<close>

lemma mergeReport_closingBalance_irrelevant:
  "mergeReport (m\<lparr>closingBalance := a\<rparr>) (r\<lparr>closingBalance := b\<rparr>) = (mergeReport m r)\<lparr>closingBalance := a\<rparr>"
  by (simp add: mergeReport_def)

lemma foldl_mergeReport_closingBalance:
  "foldl mergeReport (m\<lparr>closingBalance := a\<rparr>) (map (\<lambda>r. r\<lparr>closingBalance := c r\<rparr>) rs)
     = (foldl mergeReport m rs)\<lparr>closingBalance := a\<rparr>"
  by (induction rs arbitrary: m) (simp_all add: mergeReport_closingBalance_irrelevant)

lemma recalculate_closingBalance_irrelevant:
  "recalculate (m\<lparr>closingBalance := a\<rparr>) = recalculate m"
  by (simp add: recalculate_def Let_def)

text \<open>
  C3: whatever reports a batch holds (at least one), the merged report's closing balance
  is recomputed: \<open>closingBalance.actual\<close> is \<open>openingBalance.actual + inflow.actual -
  outflow.actual\<close>, where \<open>inflow.actual\<close> and \<open>outflow.actual\<close> are the sums of the merged
  categories' totals; and the closing balances the parsed reports carry play no part in
  the result. (Equality of numbers is equality of values: when a total is NaN, both
  sides are NaN.)
\<close>

theorem closing_balance_recomputed:
  "(\<exists>m. mergeReports (first # rest) = Some m
      \<and> nbActual (closingBalance m)
          = fsub (fadd (obActual (openingBalance m)) (ftActual (inflow m))) (ftActual (outflow m))
      \<and> ftActual (inflow m) = fsum (map totalActual (inflowCategories m))
      \<and> ftActual (outflow m) = fsum (map totalActual (outflowCategories m))
      \<and> inflowCategories m = inflowCategories (foldl mergeReport first rest)
      \<and> outflowCategories m = outflowCategories (foldl mergeReport first rest))
   \<and> mergeReports (map (\<lambda>r. r\<lparr>closingBalance := c r\<rparr>) (first # rest)) = mergeReports (first # rest)"
  by (simp add: recalculate_def Let_def reCalcTotal_def foldl_mergeReport_closingBalance
        recalculate_closingBalance_irrelevant[unfolded recalculate_def Let_def])

lemma findIndex_distinct_key:
  "distinct (map f xs) \<Longrightarrow> x \<in> set xs \<Longrightarrow>
     \<exists>i. findIndex (\<lambda>y. f y = f x) xs = Some i \<and> i < length xs \<and> xs ! i = x"
proof (induction xs)
  case Nil
  then show ?case by simp
next
  case (Cons a xs)
  show ?case
  proof (cases "f a = f x")
    case True
    with Cons.prems have "a = x" by (auto simp: image_iff)
    with True show ?thesis by simp
  next
    case False
    with Cons.prems have "x \<in> set xs" "distinct (map f xs)" by auto
    from Cons.IH[OF this(2) this(1)] False show ?thesis by auto
  qed
qed

lemma mergeWeek_same:
  "distinct (map weekLabel ws) \<Longrightarrow> w \<in> set ws \<Longrightarrow> mergeWeek ws w = ws"
  using findIndex_distinct_key[of weekLabel ws w]
  by (auto simp: mergeWeek_def)

lemma foldl_mergeWeek_same:
  "distinct (map weekLabel ws) \<Longrightarrow> set vs \<subseteq> set ws \<Longrightarrow> foldl mergeWeek ws vs = ws"
  by (induction vs) (simp_all add: mergeWeek_same)

lemma mergeCategory_same:
  "parsedCategory c \<Longrightarrow> distinct (map weekLabel (weeks c)) \<Longrightarrow> mergeCategory c c = c"
  by (simp add: mergeCategory_def parsedCategory_def foldl_mergeWeek_same Let_def
        sort_key_id_if_sorted)

lemma mergeCat_same:
  assumes "distinct (map catName base)" "c \<in> set base" "parsedCategory c"
    "distinct (map weekLabel (weeks c))"
  shows "mergeCat base c = base"
proof -
  from findIndex_distinct_key[OF assms(1,2)] obtain i where
    i: "findIndex (\<lambda>y. catName y = catName c) base = Some i" "i < length base" "base ! i = c"
    by blast
  with assms(3,4) show ?thesis
    by (simp add: mergeCat_def mergeCategory_same list_update_same_conv)
qed

lemma mergeCats_same:
  assumes "distinct (map catName base)" "set cs \<subseteq> set base" "list_all parsedCategory cs"
    "list_all (\<lambda>c. distinct (map weekLabel (weeks c))) cs"
  shows "mergeCats base cs = base"
  using assms(2-4) unfolding mergeCats_def
  by (induction cs) (simp_all add: mergeCat_same[OF assms(1)])

lemma mergeReport_same:
  assumes "mergeKeysDistinct (inflowCategories r)" "mergeKeysDistinct (outflowCategories r)"
    "list_all parsedCategory (inflowCategories r)" "list_all parsedCategory (outflowCategories r)"
  shows "mergeReport r r = r"
  using assms by (simp add: mergeReport_def mergeKeysDistinct_def mergeCats_same)

text \<open>
  C9 (counterexample): two inflow rows that share the name \<open>Rent\<close>, 10 and 20. One
  report alone gives the category totals 10 and 20, inflow 30 and closing balance 30; the
  same report twice in a batch gives 20 and 20, inflow 40 and closing balance 40: both
  rows of the second copy are merged into the first category of that name.
\<close>

theorem merge_same_report_twice_counterexample:
  "map_option (\<lambda>m. (map totalActual (inflowCategories m), ftActual (inflow m),
                     nbActual (closingBalance m)))
     (mergeReports [twoRentRows, twoRentRows]) = Some ([Fin 20, Fin 20], Fin 40, Fin 40)
   \<and> map_option (\<lambda>m. (map totalActual (inflowCategories m), ftActual (inflow m),
                       nbActual (closingBalance m)))
     (mergeReports [twoRentRows]) = Some ([Fin 10, Fin 20], Fin 30, Fin 30)"
  by (simp add: twoRentRows_def reportOf_def oneWeekCategory_def mergeReport_def mergeCats_def
        mergeCat_def mergeCategory_def mergeWeek_def recalculate_def reCalcTotal_def fops
        jsub_def jdiv_def jmul_def Let_def)

text \<open>
  C9 (amended): when no two categories of a section share a name and no two weeks of a
  category share a label, a parsed report that appears twice in a batch gives the same
  merged report, with the same category totals, section totals and closing balance, as
  the report alone.
\<close>

theorem merge_same_report_twice:
  assumes "mergeKeysDistinct (inflowCategories r)" "mergeKeysDistinct (outflowCategories r)"
    "list_all parsedCategory (inflowCategories r)" "list_all parsedCategory (outflowCategories r)"
  shows "mergeReports [r, r] = mergeReports [r]"
  using mergeReport_same[OF assms] by simp

theorem merge_same_report_twice_witness:
  "mergeKeysDistinct (inflowCategories distinctRows)
   \<and> mergeKeysDistinct (outflowCategories distinctRows)
   \<and> list_all parsedCategory (inflowCategories distinctRows)
   \<and> list_all parsedCategory (outflowCategories distinctRows)
   \<and> mergeReports [distinctRows, distinctRows] = mergeReports [distinctRows]"
proof -
  have k: "mergeKeysDistinct (inflowCategories distinctRows)"
    "mergeKeysDistinct (outflowCategories distinctRows)"
    by (simp_all add: distinctRows_def reportOf_def oneWeekCategory_def mergeKeysDistinct_def)
  have p: "list_all parsedCategory (inflowCategories distinctRows)"
    "list_all parsedCategory (outflowCategories distinctRows)"
    by (simp_all add: distinctRows_def reportOf_def oneWeekCategory_def parsedCategory_def fops
          jsub_def jdiv_def jmul_def Let_def)
  from merge_same_report_twice[OF k p] k p show ?thesis by simp
qed

end
